theory Spec2Isabelle
  imports Main "HOL-Library.AList"
begin

section \<open>JavaScript values\<close>

text \<open>
  The tools work on values parsed from JSON bodies and on the objects they build from them.
  A value is \<open>undefined\<close>, \<open>null\<close>, a boolean, a number, a string, an array or an object.
  A number is kept as the text ECMAScript prints for it (\<open>JNum ''25''\<close>): the program only
  ever serializes a number, interpolates it into a string or tests it against zero, and the
  text decides all three. A string is the list of its code units. An object is the list of
  its own enumerable properties in enumeration order.
\<close>

datatype json =
    JUndefined
  | JNull
  | JBool bool
  | JNum string
  | JStr string
  | JArr "json list"
  | JObj "(string \<times> json) list"

type_synonym props = "(string \<times> json) list"

text \<open>Everything the code can throw. \<open>ToolFailure\<close> is the \<open>new Error\<close> a handler's
  \<open>catch\<close> block builds around the message of what it caught.\<close>

datatype error =
    DomainNotAllowed string "string list"
  | RemoteError nat string string
  | TransportError string
  | InvalidArguments
  | NotFound string
  | TypeError string
  | ImplementationError
  | ToolFailure string error string

definition dq :: string where
  "dq = [CHR 0x22]"

definition sq :: string where
  "sq = [CHR 0x27]"

definition nl :: string where
  "nl = [CHR 0x0A]"

definition digit_char :: "nat \<Rightarrow> char" where
  "digit_char d = ''0123456789'' ! d"

text \<open>Decimal text of a natural number: \<open>Number.prototype.toString\<close> on a length or a
  status code, and the interpolation of one into a template literal.\<close>

fun show_nat :: "nat \<Rightarrow> string" where
  "show_nat n = (if n < 10 then [digit_char n] else show_nat (n div 10) @ [digit_char (n mod 10)])"

declare show_nat.simps [simp del]

text \<open>\<open>Array.prototype.join\<close> on an array of strings.\<close>

fun join :: "string \<Rightarrow> string list \<Rightarrow> string" where
  "join sep [] = []"
| "join sep [x] = x"
| "join sep (x # y # ys) = x @ sep @ join sep (y # ys)"

fun message_of :: "error \<Rightarrow> string" where
  "message_of (DomainNotAllowed domain allowed) =
     ''Domain '' @ dq @ domain @ dq @ '' is not in the allowlist. Allowed domains: '' @ join '', '' allowed"
| "message_of (RemoteError st stText errorText) =
     ''Socrata API error ('' @ show_nat st @ ''): '' @ stText @ '' - '' @ errorText"
| "message_of (TransportError m) = m"
| "message_of InvalidArguments =
     ''Either '' @ sq @ ''fxf'' @ sq @ '' (dataset ID) or '' @ sq @ ''assetName'' @ sq @ '' (dataset name) must be provided''"
| "message_of (NotFound m) = m"
| "message_of (TypeError m) = m"
| "message_of ImplementationError = ''Implementation error: function ended without return''"
| "message_of (ToolFailure before cause after) = before @ message_of cause @ after"

text \<open>Truthiness, as \<open>!v\<close>, \<open>v && _\<close>, \<open>v || _\<close> and \<open>if (v)\<close> test it.\<close>

fun truthy :: "json \<Rightarrow> bool" where
  "truthy JUndefined = False"
| "truthy JNull = False"
| "truthy (JBool b) = b"
| "truthy (JNum t) = (t \<noteq> ''0'')"
| "truthy (JStr s) = (s \<noteq> [])"
| "truthy (JArr xs) = True"
| "truthy (JObj fs) = True"

definition js_or :: "json \<Rightarrow> json \<Rightarrow> json" where
  "js_or a b = (if truthy a then a else b)"

text \<open>The own enumerable properties of a value, which is what an object spread
  \<open>{ ...v }\<close> copies: the fields of an object, the indexed elements of an array, the
  indexed characters of a string, nothing for the other values.\<close>

fun own_props :: "json \<Rightarrow> props" where
  "own_props (JObj fs) = fs"
| "own_props (JArr xs) = zip (map show_nat [0..<length xs]) xs"
| "own_props (JStr s) = zip (map show_nat [0..<length s]) (map (\<lambda>c. JStr [c]) s)"
| "own_props v = []"

definition lookup :: "props \<Rightarrow> string \<Rightarrow> json" where
  "lookup fs k = (case map_of fs k of None \<Rightarrow> JUndefined | Some v \<Rightarrow> v)"

text \<open>\<open>v.k\<close> for the property names this program reads (none of them is inherited from a
  prototype): a \<open>TypeError\<close> on \<open>null\<close> and \<open>undefined\<close>, otherwise the own property or
  \<open>undefined\<close>.\<close>

definition get_prop :: "json \<Rightarrow> string \<Rightarrow> error + json" where
  "get_prop v k =
     (if v = JUndefined \<or> v = JNull
      then Inl (TypeError (''Cannot read properties of '' @ (if v = JNull then ''null'' else ''undefined'')
                           @ '' (reading '' @ sq @ k @ sq @ '')''))
      else Inr (lookup (own_props v) k))"

text \<open>\<open>v?.k\<close>: \<open>undefined\<close> on \<open>null\<close> and \<open>undefined\<close> instead of the error.\<close>

definition opt_prop :: "json \<Rightarrow> string \<Rightarrow> json" where
  "opt_prop v k = (if v = JUndefined \<or> v = JNull then JUndefined else lookup (own_props v) k)"

text \<open>\<open>o.k = v\<close> and a \<open>k: v\<close> entry of an object literal after a spread: an existing key
  keeps its place and takes the new value, a new key goes to the end. (The keys this
  program writes are never array indices, which an engine would enumerate first.)\<close>

definition set_prop :: "string \<Rightarrow> json \<Rightarrow> props \<Rightarrow> props" where
  "set_prop k v fs = AList.update k v fs"

text \<open>\<open>{ ...a, ...b }\<close> on the property lists of \<open>a\<close> and \<open>b\<close>.\<close>

definition spread :: "props \<Rightarrow> props \<Rightarrow> props" where
  "spread a b = fold (\<lambda>(k, v). set_prop k v) b a"

section \<open>JSON.stringify(value, null, 2)\<close>

definition hex_digit :: "nat \<Rightarrow> char" where
  "hex_digit d = ''0123456789abcdef'' ! d"

definition escape_char :: "char \<Rightarrow> string" where
  "escape_char c =
     (if c = CHR 0x22 then [CHR 0x5C, CHR 0x22]
      else if c = CHR 0x5C then [CHR 0x5C, CHR 0x5C]
      else if c = CHR 0x08 then [CHR 0x5C, CHR ''b'']
      else if c = CHR 0x09 then [CHR 0x5C, CHR ''t'']
      else if c = CHR 0x0A then [CHR 0x5C, CHR ''n'']
      else if c = CHR 0x0C then [CHR 0x5C, CHR ''f'']
      else if c = CHR 0x0D then [CHR 0x5C, CHR ''r'']
      else if (of_char c :: nat) < 32
        then [CHR 0x5C, CHR ''u'', CHR ''0'', CHR ''0'', hex_digit (of_char c div 16), hex_digit (of_char c mod 16)]
      else [c])"

definition quote :: "string \<Rightarrow> string" where
  "quote s = dq @ concat (map escape_char s) @ dq"

definition pad :: "nat \<Rightarrow> string" where
  "pad n = replicate n CHR '' ''"

text \<open>The properties \<open>JSON.stringify\<close> prints: those whose value is not \<open>undefined\<close>.\<close>

abbreviation printed_props :: "props \<Rightarrow> props" where
  "printed_props fs \<equiv> filter (\<lambda>(k, v). v \<noteq> JUndefined) fs"

text \<open>The text of a value at indentation \<open>ind\<close>. A property whose value is \<open>undefined\<close> is
  left out of an object; \<open>undefined\<close> inside an array is printed as \<open>null\<close>.\<close>

fun serialize :: "nat \<Rightarrow> json \<Rightarrow> string" where
  "serialize ind JUndefined = ''null''"
| "serialize ind JNull = ''null''"
| "serialize ind (JBool b) = (if b then ''true'' else ''false'')"
| "serialize ind (JNum t) = t"
| "serialize ind (JStr s) = quote s"
| "serialize ind (JArr xs) =
     (if xs = [] then ''[]''
      else ''['' @ nl @ join ('','' @ nl) (map (\<lambda>x. pad (ind + 2) @ serialize (ind + 2) x) xs)
           @ nl @ pad ind @ '']'')"
| "serialize ind (JObj fs) =
     (let ps = printed_props fs in
      if ps = [] then ''{}''
      else ''{'' @ nl @ join ('','' @ nl)
             (map (\<lambda>(k, v). pad (ind + 2) @ quote k @ '': '' @ serialize (ind + 2) v) ps)
           @ nl @ pad ind @ ''}'')"

text \<open>\<open>JSON.stringify\<close> returns \<open>undefined\<close>, not a string, on \<open>undefined\<close>.\<close>

definition JSON_stringify :: "json \<Rightarrow> string option" where
  "JSON_stringify v = (if v = JUndefined then None else Some (serialize 0 v))"

section \<open>src/utils/socrata-utils.ts\<close>

definition CHARACTER_LIMIT :: nat where
  "CHARACTER_LIMIT = 25000"

text \<open>\<open>validateDomain\<close>. \<open>ALLOWED_DOMAINS\<close> is fixed when the module is loaded; it is the
  first argument here.\<close>

definition validateDomain :: "string list \<Rightarrow> string \<Rightarrow> error + unit" where
  "validateDomain ALLOWED_DOMAINS domain =
     (if length ALLOWED_DOMAINS > 0 \<and> domain \<notin> set ALLOWED_DOMAINS
      then Inl (DomainNotAllowed domain ALLOWED_DOMAINS)
      else Inr ())"

text \<open>The argument of \<open>normalizeToCommaSeparated\<close> is \<open>string[] | string | undefined\<close>.\<close>

datatype str_or_list = Str string | Arr "string list"

fun normalizeToCommaSeparated :: "str_or_list option \<Rightarrow> string option" where
  "normalizeToCommaSeparated None = None"
| "normalizeToCommaSeparated (Some (Str v)) = (if v = [] then None else Some v)"
| "normalizeToCommaSeparated (Some (Arr v)) = (if length v > 0 then Some (join '','' v) else None)"

text \<open>\<open>truncateResponse\<close>. The local \<open>truncated\<close> is computed and never used, as in the
  source.\<close>

definition truncateResponse :: "json \<Rightarrow> nat \<Rightarrow> error + json" where
  "truncateResponse data limit =
     (case JSON_stringify data of
        None \<Rightarrow> Inl (TypeError (''Cannot read properties of undefined (reading '' @ sq @ ''length'' @ sq @ '')''))
      | Some jsonString \<Rightarrow>
          if length jsonString \<le> limit then Inr data
          else
            let truncated = take (limit - 100) jsonString in
            Inr (JObj
              (set_prop ''_message''
                 (JStr (''Response truncated at '' @ show_nat limit @ '' characters. Original length: ''
                        @ show_nat (length jsonString)))
                 (set_prop ''_truncated'' (JBool True) (own_props data)))))"

datatype format = Json | Markdown

datatype detail = Concise | Detailed

record FormatOptions =
  format :: "format option"
  detail :: "detail option"

text \<open>The callback of \<open>data.map\<close> in \<open>formatResponse\<close>. \<open>typeof item === 'object'\<close>
  holds of objects, of arrays and of \<open>null\<close>.\<close>

fun typeof_object :: "json \<Rightarrow> bool" where
  "typeof_object JNull = True"
| "typeof_object (JArr xs) = True"
| "typeof_object (JObj fs) = True"
| "typeof_object v = False"

definition essential_fields :: "json \<Rightarrow> json" where
  "essential_fields item =
     (if typeof_object item \<and> item \<noteq> JNull
      then JObj [(''id'', lookup (own_props item) ''id''),
                 (''name'', lookup (own_props item) ''name''),
                 (''title'', lookup (own_props item) ''title''),
                 (''description'', lookup (own_props item) ''description''),
                 (''domain'', lookup (own_props item) ''domain'')]
      else item)"

definition formatResponse :: "json \<Rightarrow> FormatOptions \<Rightarrow> error + json" where
  "formatResponse data options =
     (let detail = (case detail options of None \<Rightarrow> Detailed | Some d \<Rightarrow> d);
          data' = (case data of
                     JArr xs \<Rightarrow> if detail = Concise then JArr (map essential_fields xs) else data
                   | _ \<Rightarrow> data)
      in truncateResponse data' CHARACTER_LIMIT)"

section \<open>The remote API\<close>

text \<open>A request the program sends, and what \<open>fetch\<close> resolves to: the status line, the
  body as text, and the body as \<open>response.json()\<close> parses it (or fails to). The remote
  is any function from the requests made so far and the next request to the outcome of
  \<open>fetch\<close> (\<open>Inl\<close>: the promise is rejected). The requests made are kept in a log.\<close>

datatype request = GET string | PUT string json

record response =
  status :: nat
  statusText :: string
  body_text :: string
  body_json :: "error + json"

type_synonym remote = "request list \<Rightarrow> request \<Rightarrow> error + response"

definition response_ok :: "response \<Rightarrow> bool" where
  "response_ok r = (200 \<le> status r \<and> status r \<le> 299)"

definition socrata_request :: "remote \<Rightarrow> request \<Rightarrow> request list \<Rightarrow> request list \<times> (error + json)" where
  "socrata_request remote rq log =
     (log @ [rq],
      case remote log rq of
        Inl e \<Rightarrow> Inl e
      | Inr r \<Rightarrow>
          if \<not> response_ok r then Inl (RemoteError (status r) (statusText r) (body_text r))
          else body_json r)"

definition socrataGet :: "remote \<Rightarrow> string \<Rightarrow> request list \<Rightarrow> request list \<times> (error + json)" where
  "socrataGet remote url log = socrata_request remote (GET url) log"

definition socrataPut :: "remote \<Rightarrow> string \<Rightarrow> json \<Rightarrow> request list \<Rightarrow> request list \<times> (error + json)" where
  "socrataPut remote url data log = socrata_request remote (PUT url data) log"

text \<open>The text a handler returns: the serialized value, inside a fenced block under a
  heading when the format is markdown. The value is never \<open>undefined\<close> where a handler
  serializes it.\<close>

definition fence :: string where
  "fence = [CHR 0x60, CHR 0x60, CHR 0x60]"

definition content_text :: "format \<Rightarrow> string \<Rightarrow> json \<Rightarrow> string" where
  "content_text fmt heading formatted =
     (if fmt = Markdown
      then heading @ nl @ nl @ fence @ ''json'' @ nl @ serialize 0 formatted @ nl @ fence
      else serialize 0 formatted)"

section \<open>Search parameters of the user and team tools (user-tools.js)\<close>

text \<open>The pairs \<open>url.searchParams.append\<close> adds, in order. \<open>limit\<close> and \<open>offset\<close> are
  taken as whole numbers.\<close>

definition append_if :: "string \<Rightarrow> string option \<Rightarrow> (string \<times> string) list" where
  "append_if k param = (case param of None \<Rightarrow> [] | Some v \<Rightarrow> if v \<noteq> [] then [(k, v)] else [])"

definition append_flag :: "string \<Rightarrow> bool option \<Rightarrow> (string \<times> string) list" where
  "append_flag k b = (case b of None \<Rightarrow> [] | Some v \<Rightarrow> [(k, if v then ''t'' else ''f'')])"

definition userSearch_params ::
  "string \<Rightarrow> str_or_list option \<Rightarrow> str_or_list option \<Rightarrow> str_or_list option \<Rightarrow>
   bool option \<Rightarrow> bool option \<Rightarrow> nat \<Rightarrow> nat \<Rightarrow> (string \<times> string) list" where
  "userSearch_params domain ids emails roles disabled future limit offset =
     [(''domain'', domain)]
     @ append_if ''ids'' (normalizeToCommaSeparated ids)
     @ append_if ''emails'' (normalizeToCommaSeparated emails)
     @ append_if ''roles'' (normalizeToCommaSeparated roles)
     @ append_flag ''disabled'' disabled
     @ append_flag ''future'' future
     @ [(''limit'', show_nat limit), (''offset'', show_nat offset)]"

definition teamSearch_params ::
  "string \<Rightarrow> str_or_list option \<Rightarrow> str_or_list option \<Rightarrow> nat \<Rightarrow> nat \<Rightarrow> (string \<times> string) list" where
  "teamSearch_params domain ids names limit offset =
     [(''domain'', domain)]
     @ append_if ''ids'' (normalizeToCommaSeparated ids)
     @ append_if ''names'' (normalizeToCommaSeparated names)
     @ [(''limit'', show_nat limit), (''offset'', show_nat offset)]"

section \<open>The asset tools: read, merge, write\<close>

subsection \<open>socrata_update_metadata\<close>

text \<open>The optional arguments of the tool, as its input schema hands them over.\<close>

record metadata_patch =
  name :: "string option"
  description :: "string option"
  tags :: "string list option"
  category :: "string option"
  attribution :: "string option"
  license :: "string option"

definition assign_if_defined :: "string \<Rightarrow> json option \<Rightarrow> props \<Rightarrow> props" where
  "assign_if_defined k v fs = (case v of None \<Rightarrow> fs | Some x \<Rightarrow> set_prop k x fs)"

text \<open>\<open>const updatedMetadata = { ...currentMetadata }\<close> and the six guarded assignments.\<close>

definition updatedMetadata :: "json \<Rightarrow> metadata_patch \<Rightarrow> json" where
  "updatedMetadata currentMetadata p =
     JObj
       (assign_if_defined ''license'' (map_option JStr (license p))
       (assign_if_defined ''attribution'' (map_option JStr (attribution p))
       (assign_if_defined ''category'' (map_option JStr (category p))
       (assign_if_defined ''tags'' (map_option (\<lambda>ts. JArr (map JStr ts)) (tags p))
       (assign_if_defined ''description'' (map_option JStr (description p))
       (assign_if_defined ''name'' (map_option JStr (name p))
          (own_props currentMetadata)))))))"

text \<open>The names of the arguments that are not \<open>undefined\<close>, for the markdown heading.\<close>

definition updated_field_names :: "metadata_patch \<Rightarrow> string list" where
  "updated_field_names p =
     (if name p \<noteq> None then [''name''] else [])
     @ (if description p \<noteq> None then [''description''] else [])
     @ (if tags p \<noteq> None then [''tags''] else [])
     @ (if category p \<noteq> None then [''category''] else [])
     @ (if attribution p \<noteq> None then [''attribution''] else [])
     @ (if license p \<noteq> None then [''license''] else [])"

definition views_url :: "string \<Rightarrow> string \<Rightarrow> string" where
  "views_url domain assetId = ''https://'' @ domain @ ''/api/views/'' @ assetId @ ''.json''"

definition assetMetadataUpdate_handler ::
  "string list \<Rightarrow> remote \<Rightarrow> string \<Rightarrow> string \<Rightarrow> metadata_patch \<Rightarrow> format \<Rightarrow>
   request list \<Rightarrow> request list \<times> (error + string)" where
  "assetMetadataUpdate_handler ALLOWED_DOMAINS remote domain assetId p fmt log =
     (let failed = (\<lambda>e. Inl (ToolFailure
            (''Failed to update metadata for asset '' @ assetId @ '' on '' @ domain @ '': '') e
            ''. Check if you have edit permissions for this asset.''))
      in
      case validateDomain ALLOWED_DOMAINS domain of
        Inl e \<Rightarrow> (log, failed e)
      | Inr _ \<Rightarrow>
         (case socrataGet remote (views_url domain assetId) log of
            (log1, Inl e) \<Rightarrow> (log1, failed e)
          | (log1, Inr currentMetadata) \<Rightarrow>
             (case socrataPut remote (views_url domain assetId) (updatedMetadata currentMetadata p) log1 of
                (log2, Inl e) \<Rightarrow> (log2, failed e)
              | (log2, Inr result) \<Rightarrow>
                 (case formatResponse result \<lparr>format = Some fmt, detail = None\<rparr> of
                    Inl e \<Rightarrow> (log2, failed e)
                  | Inr formatted \<Rightarrow>
                     (log2, Inr (content_text fmt
                        (''# Metadata Updated Successfully'' @ nl @ nl @ ''**Domain:** '' @ domain @ nl
                         @ ''**Asset ID:** '' @ assetId @ nl
                         @ ''**Updated Fields:** '' @ join '', '' (updated_field_names p))
                        formatted))))))"

subsection \<open>socrata_update_permissions\<close>

datatype accessLevel = AccessLevel string string

record userPermission =
  user_id :: "string option"
  user_email :: "string option"
  accessLevels :: "accessLevel list"

datatype scope = Private | Public | Site

fun scope_text :: "scope \<Rightarrow> string" where
  "scope_text Private = ''private''"
| "scope_text Public = ''public''"
| "scope_text Site = ''site''"

text \<open>A grant as the handler holds it: the object the schema's parser produced, with the
  keys \<open>id\<close> and \<open>email\<close> only when given. In \<open>AccessLevel n v\<close>, \<open>n\<close> is the level's
  \<open>name\<close> and \<open>v\<close> its \<open>version\<close>.\<close>

fun accessLevel_json :: "accessLevel \<Rightarrow> json" where
  "accessLevel_json (AccessLevel n v) = JObj [(''name'', JStr n), (''version'', JStr v)]"

definition userPermission_props :: "userPermission \<Rightarrow> props" where
  "userPermission_props g =
     (case user_id g of None \<Rightarrow> [] | Some i \<Rightarrow> [(''id'', JStr i)])
     @ (case user_email g of None \<Rightarrow> [] | Some e \<Rightarrow> [(''email'', JStr e)])
     @ [(''accessLevels'', JArr (map accessLevel_json (accessLevels g)))]"

definition userPermission_json :: "userPermission \<Rightarrow> json" where
  "userPermission_json g = JObj (userPermission_props g)"

text \<open>\<open>newUser.k && u.k === newUser.k\<close>: \<open>u.k\<close> is read only when \<open>newUser.k\<close> is a
  non-empty string.\<close>

definition same_key :: "string option \<Rightarrow> json \<Rightarrow> string \<Rightarrow> error + bool" where
  "same_key given u k =
     (case given of
        None \<Rightarrow> Inr False
      | Some s \<Rightarrow>
          if s = [] then Inr False
          else (case get_prop u k of Inl e \<Rightarrow> Inl e | Inr v \<Rightarrow> Inr (v = JStr s)))"

text \<open>The callback of \<open>existingUsers.findIndex\<close>.\<close>

definition user_matches :: "userPermission \<Rightarrow> json \<Rightarrow> error + bool" where
  "user_matches newUser u =
     (case same_key (user_id newUser) u ''id'' of
        Inl e \<Rightarrow> Inl e
      | Inr True \<Rightarrow> Inr True
      | Inr False \<Rightarrow> same_key (user_email newUser) u ''email'')"

text \<open>\<open>Array.prototype.findIndex\<close> with a callback that may throw; \<open>None\<close> is \<open>-1\<close>.\<close>

fun findIndex :: "('a \<Rightarrow> error + bool) \<Rightarrow> 'a list \<Rightarrow> error + nat option" where
  "findIndex f [] = Inr None"
| "findIndex f (x # xs) =
     (case f x of
        Inl e \<Rightarrow> Inl e
      | Inr True \<Rightarrow> Inr (Some 0)
      | Inr False \<Rightarrow>
          (case findIndex f xs of
             Inl e \<Rightarrow> Inl e
           | Inr None \<Rightarrow> Inr None
           | Inr (Some i) \<Rightarrow> Inr (Some (Suc i))))"

text \<open>The \<open>for (const newUser of users)\<close> loop: the search runs on \<open>existingUsers\<close>, the
  writes go to \<open>updatedUsers\<close>.\<close>

fun merge_users :: "json list \<Rightarrow> json list \<Rightarrow> userPermission list \<Rightarrow> error + json list" where
  "merge_users existingUsers updatedUsers [] = Inr updatedUsers"
| "merge_users existingUsers updatedUsers (newUser # users) =
     (case findIndex (user_matches newUser) existingUsers of
        Inl e \<Rightarrow> Inl e
      | Inr (Some existingIndex) \<Rightarrow>
          merge_users existingUsers
            (updatedUsers[existingIndex :=
               JObj (spread (own_props (updatedUsers ! existingIndex)) (userPermission_props newUser))])
            users
      | Inr None \<Rightarrow>
          merge_users existingUsers (updatedUsers @ [userPermission_json newUser]) users)"

text \<open>The non-replacing branch from \<open>updatedPermissions.users || []\<close> on. A falsy \<open>users\<close>
  field gives the empty list; an array is copied and merged into; a non-empty string is
  spread into its characters but has no \<open>findIndex\<close>; any other value is not iterable.\<close>

definition merged_users :: "json \<Rightarrow> userPermission list \<Rightarrow> error + json list" where
  "merged_users current_users users =
     (if \<not> truthy current_users then merge_users [] [] users
      else case current_users of
             JArr xs \<Rightarrow> merge_users xs xs users
           | JStr s \<Rightarrow>
               if users = [] then Inr (map (\<lambda>c. JStr [c]) s)
               else Inl (TypeError ''existingUsers.findIndex is not a function'')
           | _ \<Rightarrow> Inl (TypeError ''existingUsers is not iterable''))"

text \<open>The document the handler writes back: \<open>{ ...currentPermissions }\<close>, then \<open>scope\<close>
  when given (the three scope names are truthy), then \<open>users\<close> when given (an array is
  truthy, also when empty).\<close>

definition updatedPermissions ::
  "json \<Rightarrow> scope option \<Rightarrow> userPermission list option \<Rightarrow> bool \<Rightarrow> error + json" where
  "updatedPermissions currentPermissions scp users replaceUsers =
     (let with_scope = assign_if_defined ''scope'' (map_option (\<lambda>s. JStr (scope_text s)) scp)
                         (own_props currentPermissions)
      in
      case users of
        None \<Rightarrow> Inr (JObj with_scope)
      | Some us \<Rightarrow>
          if replaceUsers
          then Inr (JObj (set_prop ''users'' (JArr (map userPermission_json us)) with_scope))
          else (case merged_users (lookup with_scope ''users'') us of
                  Inl e \<Rightarrow> Inl e
                | Inr updatedUsers \<Rightarrow> Inr (JObj (set_prop ''users'' (JArr updatedUsers) with_scope))))"

definition permissions_url :: "string \<Rightarrow> string \<Rightarrow> string" where
  "permissions_url domain assetId = ''https://'' @ domain @ ''/api/assets/'' @ assetId @ ''/permissions.json''"

definition assetPermissionsUpdate_handler ::
  "string list \<Rightarrow> remote \<Rightarrow> string \<Rightarrow> string \<Rightarrow> scope option \<Rightarrow> userPermission list option \<Rightarrow>
   bool \<Rightarrow> format \<Rightarrow> request list \<Rightarrow> request list \<times> (error + string)" where
  "assetPermissionsUpdate_handler ALLOWED_DOMAINS remote domain assetId scp users replaceUsers fmt log =
     (let failed = (\<lambda>e. Inl (ToolFailure
            (''Failed to update permissions for asset '' @ assetId @ '' on '' @ domain @ '': '') e
            ''. Check if you have admin permissions for this asset and the user/email addresses are valid.''))
      in
      case validateDomain ALLOWED_DOMAINS domain of
        Inl e \<Rightarrow> (log, failed e)
      | Inr _ \<Rightarrow>
         (case socrataGet remote (permissions_url domain assetId) log of
            (log1, Inl e) \<Rightarrow> (log1, failed e)
          | (log1, Inr currentPermissions) \<Rightarrow>
             (case updatedPermissions currentPermissions scp users replaceUsers of
                Inl e \<Rightarrow> (log1, failed e)
              | Inr updated \<Rightarrow>
                 (case socrataPut remote (permissions_url domain assetId) updated log1 of
                    (log2, Inl e) \<Rightarrow> (log2, failed e)
                  | (log2, Inr result) \<Rightarrow>
                     (case formatResponse result \<lparr>format = Some fmt, detail = None\<rparr> of
                        Inl e \<Rightarrow> (log2, failed e)
                      | Inr formatted \<Rightarrow>
                         (log2, Inr (content_text fmt
                            (''# Permissions Updated Successfully'' @ nl @ nl @ ''**Domain:** '' @ domain @ nl
                             @ ''**Asset ID:** '' @ assetId @ nl
                             @ ''**New Scope:** '' @ (case scp of None \<Rightarrow> ''Unchanged'' | Some s \<Rightarrow> scope_text s) @ nl
                             @ ''**User Updates:** ''
                             @ (case users of
                                  None \<Rightarrow> ''None''
                                | Some us \<Rightarrow> show_nat (length us) @ '' users ''
                                            @ (if replaceUsers then ''replaced'' else ''merged'')))
                            formatted)))))))"

section \<open>The publishing tool (publishing-tools.ts)\<close>

text \<open>Three library functions whose results depend on the platform's locale and Unicode
  tables are parameters: \<open>encodeURIComponent\<close>, \<open>new Date(v).toLocaleDateString()\<close> and
  \<open>String.prototype.toLowerCase\<close>.\<close>

record platform =
  encodeURIComponent :: "string \<Rightarrow> string"
  toLocaleDateString :: "json \<Rightarrow> string"
  toLowerCase :: "string \<Rightarrow> string"

text \<open>The text a template literal puts for a value.\<close>

fun js_string :: "json \<Rightarrow> string" where
  "js_string JUndefined = ''undefined''"
| "js_string JNull = ''null''"
| "js_string (JBool b) = (if b then ''true'' else ''false'')"
| "js_string (JNum t) = t"
| "js_string (JStr s) = s"
| "js_string (JArr xs) = join '','' (map (\<lambda>x. if x = JUndefined \<or> x = JNull then [] else js_string x) xs)"
| "js_string (JObj fs) = ''[object Object]''"

definition catalog_url :: "platform \<Rightarrow> string \<Rightarrow> string \<Rightarrow> string" where
  "catalog_url pf domain query =
     ''https://'' @ domain @ ''/api/catalog/v1?domains='' @ domain @ ''&q='' @ encodeURIComponent pf query"

definition schedule_url :: "string \<Rightarrow> json \<Rightarrow> string" where
  "schedule_url domain fxf = ''https://'' @ domain @ ''/api/publishing/v1/revision/datasets/'' @ js_string fxf"

definition searchCatalog ::
  "platform \<Rightarrow> string list \<Rightarrow> remote \<Rightarrow> string \<Rightarrow> string \<Rightarrow> request list \<Rightarrow> request list \<times> (error + json)" where
  "searchCatalog pf ALLOWED_DOMAINS remote domain query log =
     (case validateDomain ALLOWED_DOMAINS domain of
        Inl e \<Rightarrow> (log, Inl e)
      | Inr _ \<Rightarrow>
         (case socrataGet remote (catalog_url pf domain query) log of
            (log1, Inl e) \<Rightarrow> (log1, Inl e)
          | (log1, Inr response) \<Rightarrow>
             (case get_prop response ''results'' of
                Inl e \<Rightarrow> (log1, Inl e)
              | Inr results \<Rightarrow> (log1, Inr (js_or results (JArr []))))))"

definition getSchedule ::
  "string list \<Rightarrow> remote \<Rightarrow> string \<Rightarrow> json \<Rightarrow> request list \<Rightarrow> request list \<times> (error + json)" where
  "getSchedule ALLOWED_DOMAINS remote domain fxf log =
     (case validateDomain ALLOWED_DOMAINS domain of
        Inl e \<Rightarrow> (log, Inl e)
      | Inr _ \<Rightarrow> socrataGet remote (schedule_url domain fxf) log)"

text \<open>\<open>generateScheduleSummary\<close> reads the \<open>schedule\<close> object \<open>formatScheduleResponse\<close> has
  just built. \<open>toLowerCase\<close> exists on strings only.\<close>

definition generateScheduleSummary :: "platform \<Rightarrow> props \<Rightarrow> error + string" where
  "generateScheduleSummary pf schedule =
     (if \<not> truthy (lookup schedule ''enabled'') \<or> lookup schedule ''cadence'' = JStr ''Manual/None''
      then Inr ''Dataset is updated manually - no automated publishing schedule''
      else if truthy (lookup schedule ''cadence'') \<and> lookup schedule ''cadence'' \<noteq> JStr ''Manual/None''
      then
        (let lastUpdate = (if truthy (lookup schedule ''lastRun'')
                           then toLocaleDateString pf (lookup schedule ''lastRun'') else ''Unknown'');
             nextUpdate = (if truthy (lookup schedule ''nextRun'')
                           then toLocaleDateString pf (lookup schedule ''nextRun'') else ''Not scheduled'')
         in case lookup schedule ''cadence'' of
              JStr c \<Rightarrow> Inr (''Updates '' @ toLowerCase pf c @ '', last updated: '' @ lastUpdate
                             @ '', next update: '' @ nextUpdate)
            | _ \<Rightarrow> Inl (TypeError ''schedule.cadence.toLowerCase is not a function''))
      else Inr ''Schedule information available but status unclear'')"

text \<open>The \<open>schedule\<close> object literal; \<open>sd\<close> holds the properties of the (truthy) payload.\<close>

definition schedule_fields :: "props \<Rightarrow> props" where
  "schedule_fields sd =
     [(''cadence'', js_or (lookup sd ''cadence'') (JStr ''Manual/None'')),
      (''status'', js_or (lookup sd ''status'') (JStr ''Unknown'')),
      (''enabled'', js_or (lookup sd ''enabled'') (JBool False)),
      (''lastRun'', js_or (lookup sd ''lastRun'') JNull),
      (''nextRun'', js_or (lookup sd ''nextRun'') JNull),
      (''rowCount'', js_or (lookup sd ''rowCount'') (JNum ''0'')),
      (''owner'', js_or (lookup sd ''owner'') (JStr ''Unknown'')),
      (''frequency'', js_or (lookup sd ''frequency'') JNull),
      (''timezone'', js_or (lookup sd ''timezone'') JNull)]"

definition dataset_info :: "json \<Rightarrow> json \<Rightarrow> json" where
  "dataset_info n f = JObj [(''name'', n), (''fxf'', f)]"

text \<open>\<open>formatScheduleResponse(scheduleData, assetInfo?)\<close>; \<open>assetInfo\<close> is the pair of its
  \<open>name\<close> and \<open>fxf\<close>.\<close>

definition formatScheduleResponse :: "platform \<Rightarrow> json \<Rightarrow> (json \<times> json) option \<Rightarrow> error + json" where
  "formatScheduleResponse pf scheduleData assetInfo =
     (if \<not> truthy scheduleData
      then Inr (JObj
             [(''dataset'', (case assetInfo of
                               Some (n, f) \<Rightarrow> dataset_info n f
                             | None \<Rightarrow> dataset_info (JStr ''Unknown'') (JStr ''Unknown''))),
              (''schedule'', JNull),
              (''error'', JStr ''No schedule data available - dataset may not have automated publishing'')])
      else
        (let sd = own_props scheduleData;
             schedule = schedule_fields sd
         in case generateScheduleSummary pf schedule of
              Inl e \<Rightarrow> Inl e
            | Inr summary \<Rightarrow>
                Inr (JObj
                  [(''dataset'', (case assetInfo of
                                    Some (n, f) \<Rightarrow> dataset_info n f
                                  | None \<Rightarrow> dataset_info (js_or (lookup sd ''name'') (JStr ''Unknown''))
                                                          (js_or (lookup sd ''fxf'') (JStr ''Unknown'')))),
                   (''schedule'', JObj schedule),
                   (''summary'', JStr summary)])))"

text \<open>The callback of \<open>catalogResponse.filter\<close>.\<close>

definition is_dataset :: "json \<Rightarrow> error + bool" where
  "is_dataset asset =
     (case get_prop asset ''resource'' of
        Inl e \<Rightarrow> Inl e
      | Inr resource \<Rightarrow>
          if opt_prop resource ''type'' = JStr ''dataset'' then Inr True
          else (case get_prop asset ''classification'' of
                  Inl e \<Rightarrow> Inl e
                | Inr classification \<Rightarrow> Inr (opt_prop classification ''domain_category'' = JStr ''dataset'')))"

text \<open>\<open>Array.prototype.filter\<close> with a callback that may throw.\<close>

fun filter_throwing :: "('a \<Rightarrow> error + bool) \<Rightarrow> 'a list \<Rightarrow> error + 'a list" where
  "filter_throwing f [] = Inr []"
| "filter_throwing f (x # xs) =
     (case f x of
        Inl e \<Rightarrow> Inl e
      | Inr keep \<Rightarrow>
          (case filter_throwing f xs of
             Inl e \<Rightarrow> Inl e
           | Inr ys \<Rightarrow> Inr (if keep then x # ys else ys)))"

text \<open>\<open>asset.resource?.k || asset.k\<close>, for \<open>name\<close> and \<open>id\<close>.\<close>

definition resource_or_own :: "json \<Rightarrow> string \<Rightarrow> error + json" where
  "resource_or_own asset k =
     (case get_prop asset ''resource'' of
        Inl e \<Rightarrow> Inl e
      | Inr resource \<Rightarrow>
          if truthy (opt_prop resource k) then Inr (opt_prop resource k) else get_prop asset k)"

text \<open>The body of the \<open>try\<close> block of the loop, up to the value it pushes.\<close>

definition try_schedule ::
  "platform \<Rightarrow> string list \<Rightarrow> remote \<Rightarrow> string \<Rightarrow> json \<Rightarrow> request list \<Rightarrow> request list \<times> (error + json)" where
  "try_schedule pf ALLOWED_DOMAINS remote domain asset log =
     (case resource_or_own asset ''name'' of
        Inl e \<Rightarrow> (log, Inl e)
      | Inr nm \<Rightarrow>
         (case resource_or_own asset ''id'' of
            Inl e \<Rightarrow> (log, Inl e)
          | Inr assetFxf \<Rightarrow>
             (case getSchedule ALLOWED_DOMAINS remote domain assetFxf log of
                (log1, Inl e) \<Rightarrow> (log1, Inl e)
              | (log1, Inr scheduleData) \<Rightarrow>
                  (log1, formatScheduleResponse pf scheduleData (Some (nm, assetFxf))))))"

text \<open>The \<open>catch\<close> block of the loop: the value it pushes for the error it caught. It reads
  \<open>asset\<close> again, outside any \<open>try\<close> of the loop.\<close>

definition failed_schedule :: "json \<Rightarrow> error \<Rightarrow> error + json" where
  "failed_schedule asset caught =
     (case resource_or_own asset ''name'' of
        Inl e \<Rightarrow> Inl e
      | Inr nm \<Rightarrow>
         (case resource_or_own asset ''id'' of
            Inl e \<Rightarrow> Inl e
          | Inr assetFxf \<Rightarrow>
              Inr (JObj
                [(''dataset'', dataset_info nm assetFxf),
                 (''schedule'', JNull),
                 (''error'', JStr (''Unable to fetch schedule: '' @ message_of caught))])))"

text \<open>The loop over \<open>datasetAssets\<close>, with \<open>scheduleResults\<close> as accumulator.\<close>

fun schedule_loop ::
  "platform \<Rightarrow> string list \<Rightarrow> remote \<Rightarrow> string \<Rightarrow> json list \<Rightarrow> json list \<Rightarrow> request list \<Rightarrow>
   request list \<times> (error + json list)" where
  "schedule_loop pf ALLOWED_DOMAINS remote domain [] scheduleResults log = (log, Inr scheduleResults)"
| "schedule_loop pf ALLOWED_DOMAINS remote domain (asset # assets) scheduleResults log =
     (case try_schedule pf ALLOWED_DOMAINS remote domain asset log of
        (log1, Inr formattedSchedule) \<Rightarrow>
          schedule_loop pf ALLOWED_DOMAINS remote domain assets (scheduleResults @ [formattedSchedule]) log1
      | (log1, Inl caught) \<Rightarrow>
          (case failed_schedule asset caught of
             Inl e \<Rightarrow> (log1, Inl e)
           | Inr item \<Rightarrow>
               schedule_loop pf ALLOWED_DOMAINS remote domain assets (scheduleResults @ [item]) log1))"

text \<open>\<open>catalogResponse.length === 0\<close> on whatever \<open>searchCatalog\<close> returned (a truthy
  value).\<close>

fun length_is_zero :: "json \<Rightarrow> bool" where
  "length_is_zero (JArr xs) = (xs = [])"
| "length_is_zero (JStr s) = (s = [])"
| "length_is_zero (JObj fs) = (lookup fs ''length'' = JNum ''0'')"
| "length_is_zero v = False"

text \<open>A string argument counts as given when it is truthy.\<close>

definition given :: "string option \<Rightarrow> bool" where
  "given a = (case a of None \<Rightarrow> False | Some s \<Rightarrow> s \<noteq> [])"

text \<open>The string of an argument that is given.\<close>

definition arg_text :: "string option \<Rightarrow> string" where
  "arg_text a = (case a of None \<Rightarrow> [] | Some s \<Rightarrow> s)"

text \<open>The markdown headings of the two branches.\<close>

definition schedule_heading :: "string \<Rightarrow> string \<Rightarrow> string" where
  "schedule_heading domain fxf =
     ''# Publishing Schedule'' @ nl @ nl @ ''**Domain:** '' @ domain @ nl @ ''**Dataset ID:** '' @ fxf"

definition results_heading :: "string \<Rightarrow> string \<Rightarrow> nat \<Rightarrow> string" where
  "results_heading domain assetName found =
     ''# Publishing Schedule Results'' @ nl @ nl @ ''**Domain:** '' @ domain @ nl
     @ ''**Search:** '' @ assetName @ nl @ ''**Datasets Found:** '' @ show_nat found"

text \<open>The search branch of the handler, inside its \<open>try\<close>.\<close>

definition schedule_search ::
  "platform \<Rightarrow> string list \<Rightarrow> remote \<Rightarrow> string \<Rightarrow> string \<Rightarrow> format \<Rightarrow> detail \<Rightarrow> request list \<Rightarrow>
   request list \<times> (error + string)" where
  "schedule_search pf ALLOWED_DOMAINS remote domain assetName fmt det log =
     (case searchCatalog pf ALLOWED_DOMAINS remote domain assetName log of
        (log1, Inl e) \<Rightarrow> (log1, Inl e)
      | (log1, Inr catalogResponse) \<Rightarrow>
          if \<not> truthy catalogResponse \<or> length_is_zero catalogResponse
          then (log1, Inl (NotFound (''No datasets found matching name: '' @ dq @ assetName @ dq
                  @ ''. Try searching the catalog first to find available datasets.'')))
          else
            (case catalogResponse of
               JArr assets \<Rightarrow>
                 (case filter_throwing is_dataset assets of
                    Inl e \<Rightarrow> (log1, Inl e)
                  | Inr datasetAssets \<Rightarrow>
                      if datasetAssets = []
                      then
                        (let first = (case assets of [] \<Rightarrow> JUndefined | a # _ \<Rightarrow> a);
                             assetType = js_or (opt_prop (opt_prop first ''resource'') ''type'')
                                           (js_or (opt_prop (opt_prop first ''classification'') ''domain_category'')
                                              (JStr ''asset''))
                         in (log1, Inl (NotFound (dq @ assetName @ dq @ '' is a '' @ js_string assetType
                               @ '' and does not have a publishing schedule. Only datasets have schedules.''))))
                      else
                        (case schedule_loop pf ALLOWED_DOMAINS remote domain datasetAssets [] log1 of
                           (log2, Inl e) \<Rightarrow> (log2, Inl e)
                         | (log2, Inr scheduleResults) \<Rightarrow>
                             (let result = (if length scheduleResults = 1 then scheduleResults ! 0
                                            else JArr scheduleResults)
                              in case formatResponse result \<lparr>format = Some fmt, detail = Some det\<rparr> of
                                   Inl e \<Rightarrow> (log2, Inl e)
                                 | Inr formatted \<Rightarrow>
                                     (log2, Inr (content_text fmt
                                        (results_heading domain assetName (length scheduleResults))
                                        formatted)))))
             | _ \<Rightarrow> (log1, Inl (TypeError ''catalogResponse.filter is not a function''))))"

text \<open>The error the handler's \<open>catch\<close> throws for the error it caught.\<close>

definition schedule_failure :: "string \<Rightarrow> error \<Rightarrow> error" where
  "schedule_failure domain e =
     ToolFailure (''Failed to get publishing schedule on '' @ domain @ '': '') e
       ''. Try using a specific dataset ID or check if the dataset name is correct.''"

text \<open>The handler of \<open>socrata_get_schedule\<close>.\<close>

definition publishingScheduleGet_handler ::
  "platform \<Rightarrow> string list \<Rightarrow> remote \<Rightarrow> string \<Rightarrow> string option \<Rightarrow> string option \<Rightarrow> format \<Rightarrow> detail \<Rightarrow>
   request list \<Rightarrow> request list \<times> (error + string)" where
  "publishingScheduleGet_handler pf ALLOWED_DOMAINS remote domain fxf assetName fmt det log =
     (let failed = (\<lambda>e. Inl (schedule_failure domain e))
      in
      if \<not> given fxf \<and> \<not> given assetName then (log, failed InvalidArguments)
      else
        (case validateDomain ALLOWED_DOMAINS domain of
           Inl e \<Rightarrow> (log, failed e)
         | Inr _ \<Rightarrow>
            if given fxf
            then
              (case getSchedule ALLOWED_DOMAINS remote domain (JStr (arg_text fxf)) log of
                 (log1, Inl e) \<Rightarrow> (log1, failed e)
               | (log1, Inr scheduleData) \<Rightarrow>
                  (case formatScheduleResponse pf scheduleData None of
                     Inl e \<Rightarrow> (log1, failed e)
                   | Inr formatted \<Rightarrow>
                      (log1, Inr (content_text fmt (schedule_heading domain (arg_text fxf)) formatted))))
            else if given assetName
            then
              (case schedule_search pf ALLOWED_DOMAINS remote domain (arg_text assetName) fmt det log of
                 (log1, Inl e) \<Rightarrow> (log1, failed e)
               | (log1, Inr txt) \<Rightarrow> (log1, Inr txt))
            else (log, failed ImplementationError)))"

section \<open>Reference definitions and example inputs\<close>

text \<open>The definitions of this section are not translations of the source. They state,
  in the words of the specification, what the source's functions are compared with, and
  fix the concrete inputs the examples below are run on.\<close>

text \<open>The value a patch gives to a field of the metadata document, if any.\<close>

definition patch_value :: "metadata_patch \<Rightarrow> string \<Rightarrow> json option" where
  "patch_value p k =
     (if k = ''name'' then map_option JStr (name p)
      else if k = ''description'' then map_option JStr (description p)
      else if k = ''tags'' then map_option (\<lambda>ts. JArr (map JStr ts)) (tags p)
      else if k = ''category'' then map_option JStr (category p)
      else if k = ''attribution'' then map_option JStr (attribution p)
      else if k = ''license'' then map_option JStr (license p)
      else None)"

definition concise :: FormatOptions where
  "concise = \<lparr>format = Some Json, detail = Some Concise\<rparr>"

text \<open>An object whose one field holds 25000 characters.\<close>

definition long_text :: string where
  "long_text = replicate 25000 CHR ''x''"

definition oversized_example :: json where
  "oversized_example = JObj [(''data'', JStr long_text)]"

text \<open>A remote that answers every GET with one stored document and every PUT with the
  document it was sent.\<close>

definition ok_response :: "json \<Rightarrow> response" where
  "ok_response v = \<lparr>status = 200, statusText = ''OK'', body_text = [], body_json = Inr v\<rparr>"

definition demo_store :: "json \<Rightarrow> remote" where
  "demo_store current log rq = (case rq of GET url \<Rightarrow> Inr (ok_response current) | PUT url doc \<Rightarrow> Inr (ok_response doc))"

text \<open>The permission upsert in the words of its description. An incoming grant matches an
  entry when its non-empty \<open>id\<close> is the entry's \<open>id\<close> or its non-empty \<open>email\<close> is the
  entry's \<open>email\<close>; \<open>first_match\<close> is the first position of the list at which it does;
  \<open>merge_grant\<close> lays the grant's fields over an entry; \<open>upsert_result\<close> is the list in
  which every position holds its entry with the grants matched to it laid over it in
  order, followed by the grants no entry matched.\<close>

definition key_matches :: "string option \<Rightarrow> json \<Rightarrow> string \<Rightarrow> bool" where
  "key_matches wanted u k = (case wanted of None \<Rightarrow> False | Some s \<Rightarrow> s \<noteq> [] \<and> lookup (own_props u) k = JStr s)"

definition grant_matches :: "userPermission \<Rightarrow> json \<Rightarrow> bool" where
  "grant_matches g u = (key_matches (user_id g) u ''id'' \<or> key_matches (user_email g) u ''email'')"

fun first_index :: "('a \<Rightarrow> bool) \<Rightarrow> 'a list \<Rightarrow> nat option" where
  "first_index P [] = None"
| "first_index P (x # xs) = (if P x then Some 0 else map_option Suc (first_index P xs))"

definition first_match :: "json list \<Rightarrow> userPermission \<Rightarrow> nat option" where
  "first_match existing g = first_index (grant_matches g) existing"

definition merge_grant :: "json \<Rightarrow> userPermission \<Rightarrow> json" where
  "merge_grant u g = JObj (spread (own_props u) (userPermission_props g))"

definition upsert_result :: "json list \<Rightarrow> userPermission list \<Rightarrow> json list" where
  "upsert_result existing incoming =
     map (\<lambda>j. fold (\<lambda>g u. merge_grant u g) (filter (\<lambda>g. first_match existing g = Some j) incoming) (existing ! j))
       [0..<length existing]
     @ map userPermission_json (filter (\<lambda>g. first_match existing g = None) incoming)"

text \<open>A permission document in which the first grant has the e-mail address, and the second
  the id, of the incoming grant \<open>both_keys\<close>.\<close>

definition email_entry :: json where
  "email_entry = JObj [(''email'', JStr ''a@x.org''),
                       (''accessLevels'', JArr [JObj [(''name'', JStr ''viewer''), (''version'', JStr ''all'')]])]"

definition id_entry :: json where
  "id_entry = JObj [(''id'', JStr ''u1''),
                    (''accessLevels'', JArr [JObj [(''name'', JStr ''viewer''), (''version'', JStr ''all'')]])]"

definition by_email_then_id :: json where
  "by_email_then_id = JObj [(''scope'', JStr ''private''), (''users'', JArr [email_entry, id_entry])]"

definition both_keys :: userPermission where
  "both_keys = \<lparr>user_id = Some ''u1'', user_email = Some ''a@x.org'', accessLevels = [AccessLevel ''editor'' ''all'']\<rparr>"

text \<open>The schedule search in the words of its description. For a dataset match (never
  \<open>null\<close>), \<open>name_of\<close> and \<open>fxf_of\<close> are its name and identifier; \<open>summary_of\<close> is the
  entry it gets from the outcome of its own schedule fetch; \<open>fetches\<close> are the schedule
  requests of a list of matches and \<open>summaries\<close> their entries, each fetch being answered
  by the remote after the ones before it.\<close>

definition name_of :: "json \<Rightarrow> json" where
  "name_of asset = js_or (opt_prop (lookup (own_props asset) ''resource'') ''name'') (lookup (own_props asset) ''name'')"

definition fxf_of :: "json \<Rightarrow> json" where
  "fxf_of asset = js_or (opt_prop (lookup (own_props asset) ''resource'') ''id'') (lookup (own_props asset) ''id'')"

definition summary_of :: "platform \<Rightarrow> json \<Rightarrow> error + json \<Rightarrow> json" where
  "summary_of pf asset outcome =
     (case (case outcome of
              Inl e \<Rightarrow> Inl e
            | Inr scheduleData \<Rightarrow> formatScheduleResponse pf scheduleData (Some (name_of asset, fxf_of asset))) of
        Inr entry \<Rightarrow> entry
      | Inl e \<Rightarrow>
          JObj [(''dataset'', dataset_info (name_of asset) (fxf_of asset)),
                (''schedule'', JNull),
                (''error'', JStr (''Unable to fetch schedule: '' @ message_of e))])"

definition fetches :: "string \<Rightarrow> json list \<Rightarrow> request list" where
  "fetches domain assets = map (\<lambda>a. GET (schedule_url domain (fxf_of a))) assets"

fun summaries :: "platform \<Rightarrow> remote \<Rightarrow> string \<Rightarrow> json list \<Rightarrow> request list \<Rightarrow> json list" where
  "summaries pf remote domain [] log = []"
| "summaries pf remote domain (a # as) log =
     summary_of pf a (snd (socrataGet remote (schedule_url domain (fxf_of a)) log))
     # summaries pf remote domain as (log @ [GET (schedule_url domain (fxf_of a))])"

text \<open>An instance of the platform functions that is right on the inputs of the examples:
  no character to escape, ASCII letters to lower, no date to print.\<close>

definition lower_char :: "char \<Rightarrow> char" where
  "lower_char c =
     (case map_of (zip ''ABCDEFGHIJKLMNOPQRSTUVWXYZ'' ''abcdefghijklmnopqrstuvwxyz'') c of
        None \<Rightarrow> c
      | Some l \<Rightarrow> l)"

definition demo_platform :: platform where
  "demo_platform =
     \<lparr>encodeURIComponent = (\<lambda>s. s), toLocaleDateString = (\<lambda>v. ''Invalid Date''), toLowerCase = map lower_char\<rparr>"

text \<open>A catalog with two datasets and a story named alike. The schedule of the first
  dataset is served; the fetch of the second is answered with status 404.\<close>

definition crimes :: json where
  "crimes = JObj [(''resource'', JObj [(''type'', JStr ''dataset''), (''name'', JStr ''Crimes''), (''id'', JStr ''aaaa-1111'')])]"

definition crimes_map :: json where
  "crimes_map = JObj [(''resource'', JObj [(''type'', JStr ''story''), (''name'', JStr ''Crimes map''), (''id'', JStr ''cccc-3333'')])]"

definition crimes_2001 :: json where
  "crimes_2001 = JObj [(''resource'', JObj [(''type'', JStr ''dataset''), (''name'', JStr ''Crimes 2001''), (''id'', JStr ''bbbb-2222'')])]"

definition daily_schedule :: json where
  "daily_schedule = JObj [(''cadence'', JStr ''Daily''), (''enabled'', JBool True)]"

definition demo_catalog :: remote where
  "demo_catalog log rq =
     (if rq = GET ''https://data.x.org/api/catalog/v1?domains=data.x.org&q=crimes''
      then Inr (ok_response (JObj [(''results'', JArr [crimes, crimes_map, crimes_2001])]))
      else if rq = GET ''https://data.x.org/api/publishing/v1/revision/datasets/aaaa-1111''
      then Inr (ok_response daily_schedule)
      else Inr \<lparr>status = 404, statusText = ''Not Found'', body_text = ''gone'', body_json = Inr JNull\<rparr>)"

section \<open>Properties of objects and their serialization\<close>

lemmas text_simps = dq_def sq_def nl_def pad_def quote_def escape_char_def hex_digit_def digit_char_def

lemma lookup_set_prop: "lookup (set_prop k v fs) k' = (if k' = k then v else lookup fs k')"
  by (simp add: lookup_def set_prop_def update_conv')

lemma keys_set_prop:
  "map fst (set_prop k v fs) = (if k \<in> set (map fst fs) then map fst fs else map fst fs @ [k])"
  by (simp add: set_prop_def update_keys)

lemma keys_set_prop_ext: "\<exists>rest. map fst (set_prop k v fs) = map fst fs @ rest"
  by (simp add: keys_set_prop)

lemma set_prop_fresh: "k \<notin> fst ` set fs \<Longrightarrow> set_prop k v fs = fs @ [(k, v)]"
  unfolding set_prop_def by (induction fs) auto

lemma lookup_assign_if_defined:
  "lookup (assign_if_defined k v fs) k' =
     (case v of None \<Rightarrow> lookup fs k' | Some x \<Rightarrow> if k' = k then x else lookup fs k')"
  by (simp add: assign_if_defined_def lookup_set_prop split: option.splits)

lemma keys_assign_ext: "\<exists>rest. map fst (assign_if_defined k v fs) = map fst fs @ rest"
  by (cases v) (simp_all add: assign_if_defined_def keys_set_prop_ext)

lemma keys_ext_trans:
  assumes "\<exists>rest. map fst gs = ks @ rest" "\<exists>rest. map fst hs = map fst gs @ rest"
  shows "\<exists>rest. map fst hs = ks @ rest"
  using assms by auto

lemma set_keys_assign_if_defined:
  "set (map fst (assign_if_defined k v fs)) =
     set (map fst fs) \<union> (case v of None \<Rightarrow> {} | Some _ \<Rightarrow> {k})"
  by (auto simp add: assign_if_defined_def set_prop_def dom_update split: option.splits)

text \<open>The index keys of an array or a string are strings of decimal digits.\<close>

lemma show_nat_digits: "set (show_nat n) \<subseteq> set ''0123456789''"
proof (induction n rule: show_nat.induct)
  case (1 n)
  have d: "\<And>m. m < 10 \<Longrightarrow> digit_char m \<in> set ''0123456789''"
    unfolding digit_char_def by (rule nth_mem) simp
  show ?case
  proof (cases "n < 10")
    case True
    then show ?thesis using d [of n] by (subst show_nat.simps) simp
  next
    case False
    have "n mod 10 < 10" by simp
    with False 1 d [of "n mod 10"] show ?thesis by (subst show_nat.simps) auto
  qed
qed

lemma index_key_no_letter:
  assumes "c \<in> set k" "c \<notin> set ''0123456789''"
  shows "map_of (zip (map show_nat ns) vs) k = None"
proof -
  have "k \<notin> set (map show_nat ns)"
    using assms show_nat_digits by auto
  then have "k \<notin> fst ` set (zip (map show_nat ns) vs)"
    by (metis (no_types, lifting) image_iff in_set_zipE prod.collapse)
  then show ?thesis
    by (simp add: map_of_eq_None_iff)
qed

lemma lookup_array_essential:
  "lookup (own_props (JArr xs)) ''id'' = JUndefined"
  "lookup (own_props (JArr xs)) ''name'' = JUndefined"
  "lookup (own_props (JArr xs)) ''title'' = JUndefined"
  "lookup (own_props (JArr xs)) ''description'' = JUndefined"
  "lookup (own_props (JArr xs)) ''domain'' = JUndefined"
  by (simp_all add: lookup_def index_key_no_letter [where c = "CHR ''i''"]
        index_key_no_letter [where c = "CHR ''n''"] index_key_no_letter [where c = "CHR ''t''"]
        index_key_no_letter [where c = "CHR ''d''"])

lemma join_append:
  "xs \<noteq> [] \<Longrightarrow> ys \<noteq> [] \<Longrightarrow> join sep (xs @ ys) = join sep xs @ sep @ join sep ys"
proof (induction sep xs rule: join.induct)
  case (1 sep)
  then show ?case by simp
next
  case (2 sep x)
  then show ?case by (cases ys) simp_all
next
  case (3 sep x y zs)
  then show ?case by simp
qed

lemma length_escape: "length s \<le> length (concat (map escape_char s))"
proof (induction s)
  case Nil
  then show ?case by simp
next
  case (Cons c s)
  have "1 \<le> length (escape_char c)"
    by (simp add: escape_char_def)
  with Cons show ?case by simp
qed

lemma length_quote: "length s + 2 \<le> length (quote s)"
  using length_escape [of s] by (simp add: quote_def dq_def)

lemma serialize_object_nonempty:
  "printed_props fs \<noteq> [] \<Longrightarrow>
     serialize ind (JObj fs) =
       ''{'' @ nl @ join ('','' @ nl)
          (map (\<lambda>(k, v). pad (ind + 2) @ quote k @ '': '' @ serialize (ind + 2) v) (printed_props fs))
       @ nl @ pad ind @ ''}''"
  by (simp add: Let_def)

text \<open>One more printed field makes the text of an object longer.\<close>

lemma serialize_object_grows:
  assumes "v \<noteq> JUndefined"
  shows "length (serialize ind (JObj fs)) < length (serialize ind (JObj (fs @ [(k, v)])))"
proof (cases "printed_props fs = []")
  case True
  then have "serialize ind (JObj fs) = ''{}''" by simp
  moreover have "printed_props (fs @ [(k, v)]) = [(k, v)]"
    using True assms by simp
  then have "serialize ind (JObj (fs @ [(k, v)])) =
      ''{'' @ nl @ pad (ind + 2) @ quote k @ '': '' @ serialize (ind + 2) v @ nl @ pad ind @ ''}''"
    by (simp add: Let_def)
  ultimately show ?thesis by (simp add: nl_def)
next
  case False
  define f where "f = (\<lambda>(k, v). pad (ind + 2) @ quote k @ '': '' @ serialize (ind + 2) v)"
  have pp: "printed_props (fs @ [(k, v)]) = printed_props fs @ [(k, v)]"
    using assms by simp
  then have ne: "printed_props (fs @ [(k, v)]) \<noteq> []" by simp
  have s1: "serialize ind (JObj fs) = ''{'' @ nl @ join ('','' @ nl) (map f (printed_props fs)) @ nl @ pad ind @ ''}''"
    unfolding f_def by (rule serialize_object_nonempty [OF False])
  have s2: "serialize ind (JObj (fs @ [(k, v)])) =
      ''{'' @ nl @ join ('','' @ nl) (map f (printed_props fs @ [(k, v)])) @ nl @ pad ind @ ''}''"
    unfolding f_def pp [symmetric] by (rule serialize_object_nonempty [OF ne])
  have j: "join ('','' @ nl) (map f (printed_props fs @ [(k, v)])) =
        join ('','' @ nl) (map f (printed_props fs)) @ ('','' @ nl) @ join ('','' @ nl) [f (k, v)]"
    using False join_append [of "map f (printed_props fs)" "[f (k, v)]" "'','' @ nl"] by simp
  show ?thesis
    unfolding s1 s2 j by simp
qed

lemma single_field_length: "length s < length (serialize 0 (JObj [(k, JStr s)]))"
  using length_quote [of s] by (simp add: Let_def nl_def)

lemma length_long_text: "length long_text = 25000"
  unfolding long_text_def by (rule length_replicate)

text \<open>When the object has neither marker key and its text is over the limit, the object
  \<open>truncateResponse\<close> returns has a longer text than the one it was given.\<close>

lemma truncateResponse_grows:
  assumes "''_truncated'' \<notin> fst ` set fs" "''_message'' \<notin> fst ` set fs"
    and "limit < length (serialize 0 (JObj fs))"
  shows "\<exists>out. truncateResponse (JObj fs) limit = Inr out \<and>
               length (serialize 0 (JObj fs)) < length (serialize 0 out)"
proof -
  define msg where "msg = JStr (''Response truncated at '' @ show_nat limit
                    @ '' characters. Original length: '' @ show_nat (length (serialize 0 (JObj fs))))"
  define mid where "mid = fs @ [(''_truncated'', JBool True)]"
  have fresh: "''_message'' \<notin> fst ` set mid"
    using assms(2) by (simp add: mid_def)
  have m1: "set_prop ''_truncated'' (JBool True) fs = mid"
    unfolding mid_def by (rule set_prop_fresh [OF assms(1)])
  have m2: "set_prop ''_message'' msg mid = mid @ [(''_message'', msg)]"
    by (rule set_prop_fresh [OF fresh])
  have js: "JSON_stringify (JObj fs) = Some (serialize 0 (JObj fs))"
    by (simp add: JSON_stringify_def)
  have "\<not> length (serialize 0 (JObj fs)) \<le> limit"
    using assms(3) by simp
  then have res: "truncateResponse (JObj fs) limit = Inr (JObj (mid @ [(''_message'', msg)]))"
    unfolding truncateResponse_def js Let_def option.case own_props.simps msg_def [symmetric] m1 m2
    by (simp only: if_False)
  have l1: "length (serialize 0 (JObj fs)) < length (serialize 0 (JObj mid))"
    unfolding mid_def by (rule serialize_object_grows) simp
  have l2: "length (serialize 0 (JObj mid)) < length (serialize 0 (JObj (mid @ [(''_message'', msg)])))"
    by (rule serialize_object_grows) (simp add: msg_def)
  from l1 l2 have "length (serialize 0 (JObj fs)) < length (serialize 0 (JObj (mid @ [(''_message'', msg)])))"
    by (rule less_trans)
  with res show ?thesis by blast
qed

section \<open>Properties of the remote calls\<close>

lemma socrataGet_ok:
  assumes "remote log (GET url) = Inr r" "response_ok r"
  shows "socrataGet remote url log = (log @ [GET url], body_json r)"
  using assms by (simp add: socrataGet_def socrata_request_def)

lemma fst_socrataGet: "fst (socrataGet remote url log) = log @ [GET url]"
  by (simp add: socrataGet_def socrata_request_def)

lemma fst_socrataPut: "fst (socrataPut remote url doc log) = log @ [PUT url doc]"
  by (simp add: socrataPut_def socrata_request_def)

section \<open>The domain guard\<close>

text \<open>
  Claim C9. For every domain \<open>D\<close>: with an empty allowlist \<open>validateDomain\<close> succeeds; with
  a non-empty allowlist that holds \<open>D\<close> as that very string it succeeds; otherwise it fails
  with the error that carries the rejected domain and the whole allowlist, both of which
  its message prints. Membership is equality of strings: no case folding, no trimming, no
  wildcard.
\<close>

theorem validateDomain_allowlist:
  "(ALLOWED = [] \<longrightarrow> validateDomain ALLOWED D = Inr ()) \<and>
   (ALLOWED \<noteq> [] \<and> D \<in> set ALLOWED \<longrightarrow> validateDomain ALLOWED D = Inr ()) \<and>
   (ALLOWED \<noteq> [] \<and> D \<notin> set ALLOWED \<longrightarrow>
      validateDomain ALLOWED D = Inl (DomainNotAllowed D ALLOWED) \<and>
      message_of (DomainNotAllowed D ALLOWED) =
        ''Domain '' @ dq @ D @ dq @ '' is not in the allowlist. Allowed domains: '' @ join '', '' ALLOWED)"
  by (simp add: validateDomain_def)

theorem validateDomain_allowlist_witness:
  "validateDomain [] ''data.y.org'' = Inr () \<and>
   validateDomain [''data.x.org'', ''data.z.org''] ''data.z.org'' = Inr () \<and>
   validateDomain [''data.x.org''] ''data.y.org'' = Inl (DomainNotAllowed ''data.y.org'' [''data.x.org'']) \<and>
   validateDomain [''data.x.org''] ''Data.x.org'' = Inl (DomainNotAllowed ''Data.x.org'' [''data.x.org'']) \<and>
   validateDomain [''*.x.org''] ''data.x.org'' = Inl (DomainNotAllowed ''data.x.org'' [''*.x.org''])"
  using validateDomain_allowlist [of "[]" "''data.y.org''"]
    validateDomain_allowlist [of "[''data.x.org'', ''data.z.org'']" "''data.z.org''"]
    validateDomain_allowlist [of "[''data.x.org'']" "''data.y.org''"]
    validateDomain_allowlist [of "[''data.x.org'']" "''Data.x.org''"]
    validateDomain_allowlist [of "[''*.x.org'']" "''data.x.org''"]
  by simp

section \<open>List arguments of the search tools\<close>

text \<open>
  Claim C10. \<open>normalizeToCommaSeparated\<close> maps \<open>undefined\<close>, the empty string and the empty
  array to \<open>undefined\<close>; a non-empty array is joined with commas in the order of its
  elements and a non-empty string is returned as it is. In the user and the team search an
  argument \<open>ids\<close>, \<open>emails\<close>, \<open>roles\<close> or \<open>names\<close> that is one of the three empty values
  adds no parameter of that name to the query.
\<close>

theorem normalizeToCommaSeparated_empty_omitted:
  "normalizeToCommaSeparated None = None \<and>
   normalizeToCommaSeparated (Some (Str [])) = None \<and>
   normalizeToCommaSeparated (Some (Arr [])) = None \<and>
   (xs \<noteq> [] \<longrightarrow> normalizeToCommaSeparated (Some (Arr xs)) = Some (join '','' xs)) \<and>
   (s \<noteq> [] \<longrightarrow> normalizeToCommaSeparated (Some (Str s)) = Some s) \<and>
   (v \<in> {None, Some (Str []), Some (Arr [])} \<longrightarrow>
      ''ids'' \<notin> set (map fst (userSearch_params domain v emails roles disabled future limit offset)) \<and>
      ''emails'' \<notin> set (map fst (userSearch_params domain ids v roles disabled future limit offset)) \<and>
      ''roles'' \<notin> set (map fst (userSearch_params domain ids emails v disabled future limit offset)) \<and>
      ''ids'' \<notin> set (map fst (teamSearch_params domain v names limit offset)) \<and>
      ''names'' \<notin> set (map fst (teamSearch_params domain ids v limit offset)))"
  by (auto simp add: userSearch_params_def teamSearch_params_def append_if_def append_flag_def
        split: option.splits)

theorem normalizeToCommaSeparated_empty_omitted_witness:
  "normalizeToCommaSeparated (Some (Arr [''a'', ''b'', ''c''])) = Some ''a,b,c'' \<and>
   normalizeToCommaSeparated (Some (Str ''a,b'')) = Some ''a,b'' \<and>
   userSearch_params ''d'' (Some (Arr [])) (Some (Str [])) None None (Some True) 100 0 =
     [(''domain'', ''d''), (''future'', ''t''), (''limit'', ''100''), (''offset'', ''0'')] \<and>
   teamSearch_params ''d'' (Some (Arr [''t1'', ''t2''])) (Some (Arr [])) 100 0 =
     [(''domain'', ''d''), (''ids'', ''t1,t2''), (''limit'', ''100''), (''offset'', ''0'')]"
  using normalizeToCommaSeparated_empty_omitted [of "[''a'', ''b'', ''c'']" "''a,b''" "Some (Arr [])" "''d''"
          "Some (Str [])" None None "Some True" 100 0 "Some (Arr [])" "Some (Arr [''t1'', ''t2''])"]
  by (simp add: userSearch_params_def teamSearch_params_def append_if_def append_flag_def
        show_nat.simps digit_char_def)

section \<open>The response shaper\<close>



text \<open>
  Claim C2. The claim is that a payload over the limit is replaced by one whose own text is
  within the limit. On \<open>oversized_example\<close> (one field of 25000 characters) the text is
  over the limit, and the object \<open>formatResponse\<close> returns for it has a text that is longer
  still: the original fields are all kept and two are added.
\<close>

theorem formatResponse_oversized_example:
  "\<exists>out. formatResponse oversized_example \<lparr>format = Some Json, detail = Some Detailed\<rparr> = Inr out \<and>
         CHARACTER_LIMIT < length (serialize 0 oversized_example) \<and>
         length (serialize 0 oversized_example) < length (serialize 0 out)"
proof -
  have big: "CHARACTER_LIMIT < length (serialize 0 (JObj [(''data'', JStr long_text)]))"
    using single_field_length [of long_text "''data''"]
    by (simp only: CHARACTER_LIMIT_def length_long_text)
  have "\<exists>out. truncateResponse (JObj [(''data'', JStr long_text)]) CHARACTER_LIMIT = Inr out \<and>
               length (serialize 0 (JObj [(''data'', JStr long_text)])) < length (serialize 0 out)"
    by (rule truncateResponse_grows [OF _ _ big]) simp_all
  then obtain out where out: "truncateResponse (JObj [(''data'', JStr long_text)]) CHARACTER_LIMIT = Inr out"
    "length (serialize 0 (JObj [(''data'', JStr long_text)])) < length (serialize 0 out)" by blast
  have "formatResponse oversized_example \<lparr>format = Some Json, detail = Some Detailed\<rparr>
          = truncateResponse (JObj [(''data'', JStr long_text)]) CHARACTER_LIMIT"
    by (simp add: formatResponse_def oversized_example_def)
  then have eq: "formatResponse oversized_example \<lparr>format = Some Json, detail = Some Detailed\<rparr> = Inr out"
    using out(1) by (rule trans)
  show ?thesis
    unfolding oversized_example_def
    using eq [unfolded oversized_example_def] big out(2) by (intro exI [of _ out] conjI)
qed

text \<open>
  Claim C8, as amended. With \<open>detail = concise\<close> and an array as data, every element that
  \<open>typeof\<close> calls an object and that is not \<open>null\<close> is replaced: an object by the record of
  its fields \<open>id\<close>, \<open>name\<close>, \<open>title\<close>, \<open>description\<close> and \<open>domain\<close>, of which exactly those
  present in the source are printed, all its other fields being dropped; and an array
  element, which has none of the five, by a record that prints as \<open>{}\<close>. Every other
  element (string, number, boolean, \<open>null\<close>) passes through unchanged. Data that is not an
  array, and any data when the detail is not concise, goes to the size bound as it is.
\<close>

theorem formatResponse_projection:
  "(detail opts = Some Concise \<longrightarrow>
      formatResponse (JArr xs) opts = truncateResponse (JArr (map essential_fields xs)) CHARACTER_LIMIT) \<and>
   essential_fields (JObj fs) =
      JObj [(''id'', lookup fs ''id''), (''name'', lookup fs ''name''), (''title'', lookup fs ''title''),
            (''description'', lookup fs ''description''), (''domain'', lookup fs ''domain'')] \<and>
   map fst (printed_props (own_props (essential_fields (JObj fs)))) =
      filter (\<lambda>k. lookup fs k \<noteq> JUndefined) [''id'', ''name'', ''title'', ''description'', ''domain''] \<and>
   essential_fields (JArr ys) =
      JObj [(''id'', JUndefined), (''name'', JUndefined), (''title'', JUndefined),
            (''description'', JUndefined), (''domain'', JUndefined)] \<and>
   ((\<forall>gs. item \<noteq> JObj gs) \<and> (\<forall>zs. item \<noteq> JArr zs) \<longrightarrow> essential_fields item = item) \<and>
   (detail opts \<noteq> Some Concise \<or> (\<forall>zs. data \<noteq> JArr zs) \<longrightarrow>
      formatResponse data opts = truncateResponse data CHARACTER_LIMIT)"
proof (intro conjI impI)
  assume "detail opts = Some Concise"
  then show "formatResponse (JArr xs) opts = truncateResponse (JArr (map essential_fields xs)) CHARACTER_LIMIT"
    by (simp add: formatResponse_def)
next
  show "essential_fields (JObj fs) =
      JObj [(''id'', lookup fs ''id''), (''name'', lookup fs ''name''), (''title'', lookup fs ''title''),
            (''description'', lookup fs ''description''), (''domain'', lookup fs ''domain'')]"
    by (simp add: essential_fields_def)
next
  show "map fst (printed_props (own_props (essential_fields (JObj fs)))) =
      filter (\<lambda>k. lookup fs k \<noteq> JUndefined) [''id'', ''name'', ''title'', ''description'', ''domain'']"
    by (simp add: essential_fields_def)
next
  show "essential_fields (JArr ys) =
      JObj [(''id'', JUndefined), (''name'', JUndefined), (''title'', JUndefined),
            (''description'', JUndefined), (''domain'', JUndefined)]"
    unfolding essential_fields_def lookup_array_essential by simp
next
  assume "(\<forall>gs. item \<noteq> JObj gs) \<and> (\<forall>zs. item \<noteq> JArr zs)"
  then show "essential_fields item = item"
    by (cases item) (simp_all add: essential_fields_def)
next
  assume "detail opts \<noteq> Some Concise \<or> (\<forall>zs. data \<noteq> JArr zs)"
  then show "formatResponse data opts = truncateResponse data CHARACTER_LIMIT"
    by (cases data; cases "detail opts") (auto simp add: formatResponse_def)
qed

theorem formatResponse_projection_witness:
  "formatResponse (JArr [JObj [(''id'', JNum ''1''), (''name'', JStr ''n''), (''title'', JStr ''t''),
                               (''description'', JStr ''d''), (''domain'', JStr ''x''), (''extra'', JStr ''y'')],
                         JStr ''s'', JNull]) concise
     = Inr (JArr [JObj [(''id'', JNum ''1''), (''name'', JStr ''n''), (''title'', JStr ''t''),
                        (''description'', JStr ''d''), (''domain'', JStr ''x'')],
                  JStr ''s'', JNull]) \<and>
   formatResponse (JArr [JObj [(''id'', JNum ''1''), (''extra'', JStr ''y'')]]) \<lparr>format = None, detail = None\<rparr>
     = Inr (JArr [JObj [(''id'', JNum ''1''), (''extra'', JStr ''y'')]]) \<and>
   formatResponse (JObj [(''id'', JNum ''1''), (''extra'', JStr ''y'')]) concise
     = Inr (JObj [(''id'', JNum ''1''), (''extra'', JStr ''y'')])"
  using formatResponse_projection [of concise
          "[JObj [(''id'', JNum ''1''), (''name'', JStr ''n''), (''title'', JStr ''t''),
                  (''description'', JStr ''d''), (''domain'', JStr ''x''), (''extra'', JStr ''y'')], JStr ''s'', JNull]"
          "[(''id'', JNum ''1''), (''name'', JStr ''n''), (''title'', JStr ''t''),
            (''description'', JStr ''d''), (''domain'', JStr ''x''), (''extra'', JStr ''y'')]" "[]" "JStr ''s''" JNull]
        formatResponse_projection [of concise "[]" "[]" "[]" JNull "JObj [(''id'', JNum ''1''), (''extra'', JStr ''y'')]"]
        formatResponse_projection [of "\<lparr>format = None, detail = None\<rparr>" "[]" "[]" "[]" JNull
          "JArr [JObj [(''id'', JNum ''1''), (''extra'', JStr ''y'')]]"]
  by (simp add: concise_def lookup_def truncateResponse_def JSON_stringify_def CHARACTER_LIMIT_def text_simps)

text \<open>The claim as stated lets an element that is not a structured record pass through
  unchanged; the element \<open>[1, 2]\<close> of \<open>[[1, 2]]\<close> does not.\<close>

theorem formatResponse_nested_array_counterexample:
  "formatResponse (JArr [JArr [JNum ''1'', JNum ''2'']]) concise
     = Inr (JArr [JObj [(''id'', JUndefined), (''name'', JUndefined), (''title'', JUndefined),
                        (''description'', JUndefined), (''domain'', JUndefined)]]) \<and>
   formatResponse (JArr [JArr [JNum ''1'', JNum ''2'']]) concise \<noteq> Inr (JArr [JArr [JNum ''1'', JNum ''2'']])"
  by (simp add: formatResponse_def concise_def essential_fields_def lookup_def show_nat.simps digit_char_def
        truncateResponse_def JSON_stringify_def CHARACTER_LIMIT_def text_simps)

section \<open>The merge engine\<close>

lemma dom_patch_value:
  "dom (patch_value p) =
      (case name p of None \<Rightarrow> {} | Some _ \<Rightarrow> {''name''}) \<union>
      (case description p of None \<Rightarrow> {} | Some _ \<Rightarrow> {''description''}) \<union>
      (case tags p of None \<Rightarrow> {} | Some _ \<Rightarrow> {''tags''}) \<union>
      (case category p of None \<Rightarrow> {} | Some _ \<Rightarrow> {''category''}) \<union>
      (case attribution p of None \<Rightarrow> {} | Some _ \<Rightarrow> {''attribution''}) \<union>
      (case license p of None \<Rightarrow> {} | Some _ \<Rightarrow> {''license''})"
proof (rule set_eqI)
  fix k
  show "k \<in> dom (patch_value p) \<longleftrightarrow> k \<in>
      (case name p of None \<Rightarrow> {} | Some _ \<Rightarrow> {''name''}) \<union>
      (case description p of None \<Rightarrow> {} | Some _ \<Rightarrow> {''description''}) \<union>
      (case tags p of None \<Rightarrow> {} | Some _ \<Rightarrow> {''tags''}) \<union>
      (case category p of None \<Rightarrow> {} | Some _ \<Rightarrow> {''category''}) \<union>
      (case attribution p of None \<Rightarrow> {} | Some _ \<Rightarrow> {''attribution''}) \<union>
      (case license p of None \<Rightarrow> {} | Some _ \<Rightarrow> {''license''})"
    by (cases "name p"; cases "description p"; cases "tags p"; cases "category p";
        cases "attribution p"; cases "license p")
       (simp_all add: patch_value_def dom_def)
qed

lemma lookup_updatedMetadata:
  "lookup (own_props (updatedMetadata current p)) k =
     (case patch_value p k of Some v \<Rightarrow> v | None \<Rightarrow> lookup (own_props current) k)"
  by (cases "name p"; cases "description p"; cases "tags p"; cases "category p";
      cases "attribution p"; cases "license p")
     (simp_all add: updatedMetadata_def lookup_assign_if_defined patch_value_def)

lemma assetMetadataUpdate_requests:
  assumes "validateDomain A domain = Inr ()"
    and "remote log (GET (views_url domain assetId)) = Inr r" "response_ok r"
    and "body_json r = Inr current"
  shows "fst (assetMetadataUpdate_handler A remote domain assetId p fmt log)
           = log @ [GET (views_url domain assetId), PUT (views_url domain assetId) (updatedMetadata current p)]"
proof -
  obtain log2 res where put: "socrataPut remote (views_url domain assetId) (updatedMetadata current p)
      (log @ [GET (views_url domain assetId)]) = (log2, res)"
    by (cases "socrataPut remote (views_url domain assetId) (updatedMetadata current p)
                 (log @ [GET (views_url domain assetId)])")
  then have log2: "log2 = log @ [GET (views_url domain assetId), PUT (views_url domain assetId) (updatedMetadata current p)]"
    using fst_socrataPut [of remote "views_url domain assetId" "updatedMetadata current p"
            "log @ [GET (views_url domain assetId)]"]
    by simp
  show ?thesis
    using assms put log2
    by (simp add: assetMetadataUpdate_handler_def socrataGet_ok Let_def split: sum.splits)
qed

text \<open>
  Claim C4. \<open>updateMetadata\<close> is a sparse update. The merged document is an object that has,
  for every field name, the patch's value when the patch defines that field (only \<open>name\<close>,
  \<open>description\<close>, \<open>tags\<close>, \<open>category\<close>, \<open>attribution\<close> and \<open>license\<close> can be defined) and
  otherwise the value of the fetched document, unchanged: a field the patch leaves out is
  never set to null, and a field outside the six keeps its value. The fetched fields keep
  their order, and the only fields added are fields the patch defines. This document is
  what the handler writes back after a successful read.
\<close>

theorem updatedMetadata_sparse:
  "(\<exists>fs. updatedMetadata current p = JObj fs \<and>
         (\<forall>k. lookup fs k = (case patch_value p k of Some v \<Rightarrow> v | None \<Rightarrow> lookup (own_props current) k)) \<and>
         (\<exists>added. map fst fs = map fst (own_props current) @ added) \<and>
         set (map fst fs) = set (map fst (own_props current)) \<union> dom (patch_value p)) \<and>
   (validateDomain A domain = Inr () \<and> remote log (GET (views_url domain assetId)) = Inr r \<and>
    response_ok r \<and> body_json r = Inr current \<longrightarrow>
      fst (assetMetadataUpdate_handler A remote domain assetId p fmt log)
        = log @ [GET (views_url domain assetId), PUT (views_url domain assetId) (updatedMetadata current p)])"
proof -
  define f1 where "f1 = assign_if_defined ''name'' (map_option JStr (name p)) (own_props current)"
  define f2 where "f2 = assign_if_defined ''description'' (map_option JStr (description p)) f1"
  define f3 where "f3 = assign_if_defined ''tags'' (map_option (\<lambda>ts. JArr (map JStr ts)) (tags p)) f2"
  define f4 where "f4 = assign_if_defined ''category'' (map_option JStr (category p)) f3"
  define f5 where "f5 = assign_if_defined ''attribution'' (map_option JStr (attribution p)) f4"
  define f6 where "f6 = assign_if_defined ''license'' (map_option JStr (license p)) f5"
  have eq: "updatedMetadata current p = JObj f6"
    by (simp add: updatedMetadata_def f1_def f2_def f3_def f4_def f5_def f6_def)
  have "\<forall>k. lookup (own_props (updatedMetadata current p)) k =
          (case patch_value p k of Some v \<Rightarrow> v | None \<Rightarrow> lookup (own_props current) k)"
    by (simp add: lookup_updatedMetadata)
  then have vals: "\<forall>k. lookup f6 k = (case patch_value p k of Some v \<Rightarrow> v | None \<Rightarrow> lookup (own_props current) k)"
    unfolding eq by simp
  have k1: "\<exists>rest. map fst f1 = map fst (own_props current) @ rest"
    unfolding f1_def by (rule keys_assign_ext)
  have k2: "\<exists>rest. map fst f2 = map fst (own_props current) @ rest"
    unfolding f2_def by (rule keys_ext_trans [OF k1 keys_assign_ext])
  have k3: "\<exists>rest. map fst f3 = map fst (own_props current) @ rest"
    unfolding f3_def by (rule keys_ext_trans [OF k2 keys_assign_ext])
  have k4: "\<exists>rest. map fst f4 = map fst (own_props current) @ rest"
    unfolding f4_def by (rule keys_ext_trans [OF k3 keys_assign_ext])
  have k5: "\<exists>rest. map fst f5 = map fst (own_props current) @ rest"
    unfolding f5_def by (rule keys_ext_trans [OF k4 keys_assign_ext])
  have k6: "\<exists>added. map fst f6 = map fst (own_props current) @ added"
    unfolding f6_def by (rule keys_ext_trans [OF k5 keys_assign_ext])
  have keys: "set (map fst f6) = set (map fst (own_props current)) \<union> dom (patch_value p)"
    unfolding dom_patch_value f6_def f5_def f4_def f3_def f2_def f1_def set_keys_assign_if_defined
    by (cases "name p"; cases "description p"; cases "tags p"; cases "category p";
        cases "attribution p"; cases "license p") auto
  have doc: "\<exists>fs. updatedMetadata current p = JObj fs \<and>
         (\<forall>k. lookup fs k = (case patch_value p k of Some v \<Rightarrow> v | None \<Rightarrow> lookup (own_props current) k)) \<and>
         (\<exists>added. map fst fs = map fst (own_props current) @ added) \<and>
         set (map fst fs) = set (map fst (own_props current)) \<union> dom (patch_value p)"
    using eq vals k6 keys by blast
  have put: "validateDomain A domain = Inr () \<and> remote log (GET (views_url domain assetId)) = Inr r \<and>
    response_ok r \<and> body_json r = Inr current \<longrightarrow>
      fst (assetMetadataUpdate_handler A remote domain assetId p fmt log)
        = log @ [GET (views_url domain assetId), PUT (views_url domain assetId) (updatedMetadata current p)]"
  proof
    assume "validateDomain A domain = Inr () \<and> remote log (GET (views_url domain assetId)) = Inr r \<and>
      response_ok r \<and> body_json r = Inr current"
    then have h1: "validateDomain A domain = Inr ()"
      and h2: "remote log (GET (views_url domain assetId)) = Inr r"
      and h3: "response_ok r" and h4: "body_json r = Inr current" by simp_all
    show "fst (assetMetadataUpdate_handler A remote domain assetId p fmt log)
        = log @ [GET (views_url domain assetId), PUT (views_url domain assetId) (updatedMetadata current p)]"
      by (rule assetMetadataUpdate_requests [where remote = remote and log = log, OF h1 h2 h3 h4])
  qed
  from doc put show ?thesis by (rule conjI)
qed

theorem updatedMetadata_sparse_witness:
  "updatedMetadata (JObj [(''name'', JStr ''A''), (''description'', JStr ''d''), (''rowsUpdatedAt'', JNum ''17'')])
      \<lparr>name = Some ''B'', description = None, tags = None, category = None, attribution = None, license = None\<rparr>
     = JObj [(''name'', JStr ''B''), (''description'', JStr ''d''), (''rowsUpdatedAt'', JNum ''17'')] \<and>
   fst (assetMetadataUpdate_handler [] (demo_store (JObj [(''name'', JStr ''A''), (''description'', JStr ''d'')]))
          ''data.x.org'' ''abcd-1234''
          \<lparr>name = Some ''B'', description = None, tags = None, category = None, attribution = None, license = None\<rparr>
          Json [])
     = [GET ''https://data.x.org/api/views/abcd-1234.json'',
        PUT ''https://data.x.org/api/views/abcd-1234.json'' (JObj [(''name'', JStr ''B''), (''description'', JStr ''d'')])]"
  using updatedMetadata_sparse [of "JObj [(''name'', JStr ''A''), (''description'', JStr ''d''), (''rowsUpdatedAt'', JNum ''17'')]"
          "\<lparr>name = Some ''B'', description = None, tags = None, category = None, attribution = None, license = None\<rparr>"]
        updatedMetadata_sparse [of "JObj [(''name'', JStr ''A''), (''description'', JStr ''d'')]"
          "\<lparr>name = Some ''B'', description = None, tags = None, category = None, attribution = None, license = None\<rparr>"
          "[]" "''data.x.org''" "demo_store (JObj [(''name'', JStr ''A''), (''description'', JStr ''d'')])" "[]"
          "''abcd-1234''" "ok_response (JObj [(''name'', JStr ''A''), (''description'', JStr ''d'')])" Json]
  by (simp add: updatedMetadata_def assign_if_defined_def set_prop_def validateDomain_def demo_store_def
        ok_response_def response_ok_def views_url_def)

lemma assetPermissionsUpdate_requests:
  assumes "validateDomain A domain = Inr ()"
    and "remote log (GET (permissions_url domain assetId)) = Inr r" "response_ok r"
    and "body_json r = Inr current"
    and "updatedPermissions current scp users replaceUsers = Inr doc"
  shows "fst (assetPermissionsUpdate_handler A remote domain assetId scp users replaceUsers fmt log)
           = log @ [GET (permissions_url domain assetId), PUT (permissions_url domain assetId) doc]"
proof -
  obtain log2 res where put: "socrataPut remote (permissions_url domain assetId) doc
      (log @ [GET (permissions_url domain assetId)]) = (log2, res)"
    by (cases "socrataPut remote (permissions_url domain assetId) doc (log @ [GET (permissions_url domain assetId)])")
  then have log2: "log2 = log @ [GET (permissions_url domain assetId), PUT (permissions_url domain assetId) doc]"
    using fst_socrataPut [of remote "permissions_url domain assetId" doc "log @ [GET (permissions_url domain assetId)]"]
    by simp
  show ?thesis
    using assms put log2
    by (simp add: assetPermissionsUpdate_handler_def socrataGet_ok Let_def split: sum.splits)
qed

text \<open>
  Claim C5. With \<open>replaceUsers = true\<close> and a \<open>users\<close> patch, the merged document's \<open>users\<close>
  list is exactly the patch's list, whatever grants the fetched document had (and whatever
  else its \<open>users\<close> field held): no existing grant survives, and no error can arise. In
  particular the empty patch list gives the empty grant list. Scope is the patch's when
  given, every other field is the fetched one. This document is what the handler writes
  back after a successful read.
\<close>

theorem updatedPermissions_replaceUsers:
  "(\<exists>fs. updatedPermissions current scp (Some us) True = Inr (JObj fs) \<and>
         lookup fs ''users'' = JArr (map userPermission_json us) \<and>
         lookup fs ''scope'' = (case scp of None \<Rightarrow> lookup (own_props current) ''scope''
                                | Some s \<Rightarrow> JStr (scope_text s)) \<and>
         (\<forall>k. k \<noteq> ''users'' \<and> k \<noteq> ''scope'' \<longrightarrow> lookup fs k = lookup (own_props current) k)) \<and>
   (\<exists>fs. updatedPermissions current scp (Some []) True = Inr (JObj fs) \<and> lookup fs ''users'' = JArr []) \<and>
   (validateDomain A domain = Inr () \<and> remote log (GET (permissions_url domain assetId)) = Inr r \<and>
    response_ok r \<and> body_json r = Inr current \<longrightarrow>
      (\<exists>doc. updatedPermissions current scp (Some us) True = Inr doc \<and>
             fst (assetPermissionsUpdate_handler A remote domain assetId scp (Some us) True fmt log)
               = log @ [GET (permissions_url domain assetId), PUT (permissions_url domain assetId) doc]))"
proof -
  have repl: "\<And>vs. updatedPermissions current scp (Some vs) True =
      Inr (JObj (set_prop ''users'' (JArr (map userPermission_json vs))
                 (assign_if_defined ''scope'' (map_option (\<lambda>s. JStr (scope_text s)) scp) (own_props current))))"
    by (simp add: updatedPermissions_def)
  have a: "\<exists>fs. updatedPermissions current scp (Some us) True = Inr (JObj fs) \<and>
         lookup fs ''users'' = JArr (map userPermission_json us) \<and>
         lookup fs ''scope'' = (case scp of None \<Rightarrow> lookup (own_props current) ''scope''
                                | Some s \<Rightarrow> JStr (scope_text s)) \<and>
         (\<forall>k. k \<noteq> ''users'' \<and> k \<noteq> ''scope'' \<longrightarrow> lookup fs k = lookup (own_props current) k)"
    unfolding repl by (cases scp) (simp_all add: lookup_set_prop lookup_assign_if_defined)
  have b: "\<exists>fs. updatedPermissions current scp (Some []) True = Inr (JObj fs) \<and> lookup fs ''users'' = JArr []"
    unfolding repl by (simp add: lookup_set_prop)
  have c: "validateDomain A domain = Inr () \<and> remote log (GET (permissions_url domain assetId)) = Inr r \<and>
    response_ok r \<and> body_json r = Inr current \<longrightarrow>
      (\<exists>doc. updatedPermissions current scp (Some us) True = Inr doc \<and>
             fst (assetPermissionsUpdate_handler A remote domain assetId scp (Some us) True fmt log)
               = log @ [GET (permissions_url domain assetId), PUT (permissions_url domain assetId) doc])"
  proof
    assume h: "validateDomain A domain = Inr () \<and> remote log (GET (permissions_url domain assetId)) = Inr r \<and>
      response_ok r \<and> body_json r = Inr current"
    from a obtain fs where fs: "updatedPermissions current scp (Some us) True = Inr (JObj fs)"
      "lookup fs ''users'' = JArr (map userPermission_json us)" by blast
    from h have h1: "validateDomain A domain = Inr ()"
      and h2: "remote log (GET (permissions_url domain assetId)) = Inr r"
      and h3: "response_ok r" and h4: "body_json r = Inr current" by simp_all
    have "fst (assetPermissionsUpdate_handler A remote domain assetId scp (Some us) True fmt log)
               = log @ [GET (permissions_url domain assetId), PUT (permissions_url domain assetId) (JObj fs)]"
      by (rule assetPermissionsUpdate_requests [where remote = remote and log = log, OF h1 h2 h3 h4 fs(1)])
    with fs(1) show "\<exists>doc. updatedPermissions current scp (Some us) True = Inr doc \<and>
             fst (assetPermissionsUpdate_handler A remote domain assetId scp (Some us) True fmt log)
               = log @ [GET (permissions_url domain assetId), PUT (permissions_url domain assetId) doc]"
      by (intro exI [of _ "JObj fs"]) simp
  qed
  from a b c show ?thesis by blast
qed

theorem updatedPermissions_replaceUsers_witness:
  "updatedPermissions
      (JObj [(''scope'', JStr ''private''),
             (''users'', JArr [JObj [(''id'', JStr ''A''), (''accessLevels'', JArr [])],
                               JObj [(''id'', JStr ''B''), (''accessLevels'', JArr [])]])])
      None (Some [\<lparr>user_id = Some ''C'', user_email = None, accessLevels = [AccessLevel ''viewer'' ''all'']\<rparr>]) True
     = Inr (JObj [(''scope'', JStr ''private''),
                  (''users'', JArr [JObj [(''id'', JStr ''C''),
                     (''accessLevels'', JArr [JObj [(''name'', JStr ''viewer''), (''version'', JStr ''all'')]])]])]) \<and>
   fst (assetPermissionsUpdate_handler [] (demo_store (JObj [(''users'', JArr [JObj [(''id'', JStr ''A'')]])]))
          ''data.x.org'' ''abcd-1234'' (Some Site) (Some []) True Json [])
     = [GET ''https://data.x.org/api/assets/abcd-1234/permissions.json'',
        PUT ''https://data.x.org/api/assets/abcd-1234/permissions.json''
          (JObj [(''users'', JArr []), (''scope'', JStr ''site'')])]"
proof -
  have h: "validateDomain [] ''data.x.org'' = Inr () \<and>
      demo_store (JObj [(''users'', JArr [JObj [(''id'', JStr ''A'')]])]) []
         (GET (permissions_url ''data.x.org'' ''abcd-1234''))
        = Inr (ok_response (JObj [(''users'', JArr [JObj [(''id'', JStr ''A'')]])])) \<and>
      response_ok (ok_response (JObj [(''users'', JArr [JObj [(''id'', JStr ''A'')]])])) \<and>
      body_json (ok_response (JObj [(''users'', JArr [JObj [(''id'', JStr ''A'')]])]))
        = Inr (JObj [(''users'', JArr [JObj [(''id'', JStr ''A'')]])])"
    by (simp add: validateDomain_def demo_store_def ok_response_def response_ok_def)
  show ?thesis
    using updatedPermissions_replaceUsers [of
          "JObj [(''scope'', JStr ''private''),
             (''users'', JArr [JObj [(''id'', JStr ''A''), (''accessLevels'', JArr [])],
                               JObj [(''id'', JStr ''B''), (''accessLevels'', JArr [])]])]"
          None "[\<lparr>user_id = Some ''C'', user_email = None, accessLevels = [AccessLevel ''viewer'' ''all'']\<rparr>]"
          "[''data.y.org'']" "''data.x.org''" "demo_store JNull" "[]" "''abcd-1234''" "ok_response JNull" Json]
      updatedPermissions_replaceUsers [of "JObj [(''users'', JArr [JObj [(''id'', JStr ''A'')]])]" "Some Site" "[]"
          "[]" "''data.x.org''" "demo_store (JObj [(''users'', JArr [JObj [(''id'', JStr ''A'')]])])" "[]"
          "''abcd-1234''" "ok_response (JObj [(''users'', JArr [JObj [(''id'', JStr ''A'')]])])" Json] h
    by (simp add: updatedPermissions_def assign_if_defined_def set_prop_def userPermission_json_def
          userPermission_props_def permissions_url_def validateDomain_def)
qed

lemma user_matches_pure:
  assumes "u \<noteq> JNull" "u \<noteq> JUndefined"
  shows "user_matches g u = Inr (grant_matches g u)"
  using assms
  by (cases "user_id g"; cases "user_email g")
     (auto simp add: user_matches_def same_key_def get_prop_def grant_matches_def key_matches_def
        split: bool.splits)

lemma findIndex_pure:
  "\<forall>x \<in> set xs. f x = Inr (P x) \<Longrightarrow> findIndex f xs = Inr (first_index P xs)"
proof (induction xs)
  case Nil
  then show ?case by simp
next
  case (Cons x xs)
  then show ?case by (cases "first_index P xs") auto
qed

lemma first_index_Some_iff:
  "first_index P xs = Some j \<longleftrightarrow> j < length xs \<and> P (xs ! j) \<and> (\<forall>i < j. \<not> P (xs ! i))"
proof (induction xs arbitrary: j)
  case Nil
  then show ?case by simp
next
  case (Cons x xs)
  show ?case
  proof (cases "P x")
    case True
    then show ?thesis by (cases j) auto
  next
    case False
    show ?thesis
    proof (cases j)
      case 0
      with False show ?thesis by simp
    next
      case (Suc m)
      have "(\<forall>i < Suc m. \<not> P ((x # xs) ! i)) \<longleftrightarrow> (\<forall>i < m. \<not> P (xs ! i))"
        using False by (auto simp add: less_Suc_eq_0_disj)
      with False Suc Cons.IH [of m] show ?thesis by auto
    qed
  qed
qed

lemma first_index_None_iff: "first_index P xs = None \<longleftrightarrow> (\<forall>x \<in> set xs. \<not> P x)"
  by (induction xs) auto

lemma first_index_less: "first_index P xs = Some j \<Longrightarrow> j < length xs"
  by (simp add: first_index_Some_iff)


lemma nth_upt_take: "n \<le> length xs \<Longrightarrow> map ((!) xs) [0..<n] = take n xs"
  by (metis add_0 map_nth take_map take_upt)

lemma fold_merge_position:
  assumes "first_match existing g = Some i" and that: "n \<le> length updated"
  shows "map (\<lambda>j. fold (\<lambda>g u. merge_grant u g) (filter (\<lambda>h. first_match existing h = Some j) (g # gs)) (updated ! j)) [0..<n]
       = map (\<lambda>j. fold (\<lambda>g u. merge_grant u g) (filter (\<lambda>h. first_match existing h = Some j) gs)
                   ((updated[i := merge_grant (updated ! i) g]) ! j)) [0..<n]"
proof (rule map_cong [OF refl])
  fix j
  assume "j \<in> set [0..<n]"
  with that have j: "j < length updated" by simp
  show "fold (\<lambda>g u. merge_grant u g) (filter (\<lambda>h. first_match existing h = Some j) (g # gs)) (updated ! j)
      = fold (\<lambda>g u. merge_grant u g) (filter (\<lambda>h. first_match existing h = Some j) gs)
          ((updated[i := merge_grant (updated ! i) g]) ! j)"
    using assms j by (cases "i = j") simp_all
qed

lemma merge_users_invariant:
  assumes "\<forall>u \<in> set existing. u \<noteq> JNull \<and> u \<noteq> JUndefined"
    and "length existing \<le> length updated"
  shows "merge_users existing updated incoming =
     Inr (map (\<lambda>j. fold (\<lambda>g u. merge_grant u g) (filter (\<lambda>g. first_match existing g = Some j) incoming) (updated ! j))
            [0..<length existing]
          @ drop (length existing) updated
          @ map userPermission_json (filter (\<lambda>g. first_match existing g = None) incoming))"
  using assms(2)
proof (induction incoming arbitrary: updated)
  case Nil
  then show ?case by (simp add: nth_upt_take)
next
  case (Cons g gs)
  have fi: "findIndex (user_matches g) existing = Inr (first_match existing g)"
    unfolding first_match_def
    by (rule findIndex_pure) (simp add: assms(1) user_matches_pure)
  show ?case
  proof (cases "first_match existing g")
    case None
    have len: "length existing \<le> length (updated @ [userPermission_json g])"
      using Cons.prems by simp
    have same: "map (\<lambda>j. fold (\<lambda>g u. merge_grant u g) (filter (\<lambda>h. first_match existing h = Some j) gs)
                     ((updated @ [userPermission_json g]) ! j)) [0..<length existing]
        = map (\<lambda>j. fold (\<lambda>g u. merge_grant u g) (filter (\<lambda>h. first_match existing h = Some j) gs)
                     (updated ! j)) [0..<length existing]"
      using Cons.prems by (intro map_cong [OF refl]) (simp add: nth_append)
    show ?thesis
      using None Cons.prems
      by (simp add: fi Cons.IH [OF len] same)
  next
    case (Some i)
    then have i: "i < length existing"
      unfolding first_match_def by (rule first_index_less)
    have len: "length existing \<le> length (updated[i := merge_grant (updated ! i) g])"
      using Cons.prems by simp
    have tail: "drop (length existing) (updated[i := merge_grant (updated ! i) g]) = drop (length existing) updated"
      using i by simp
    show ?thesis
      using Some
      by (simp add: fi Cons.IH [OF len] tail merge_grant_def [symmetric]
            fold_merge_position [OF Some Cons.prems, symmetric])
  qed
qed


lemma map_of_spread:
  "distinct (map fst b) \<Longrightarrow> map_of (spread a b) = map_of a ++ map_of b"
  unfolding spread_def
proof (induction b arbitrary: a)
  case Nil
  then show ?case by simp
next
  case (Cons kv b)
  obtain k v where kv: "kv = (k, v)" by (cases kv)
  from Cons.prems kv have k: "map_of b k = None" and d: "distinct (map fst b)"
    by (auto simp add: map_of_eq_None_iff)
  have step: "(map_of a)(k \<mapsto> v) ++ map_of b = map_of a ++ map_of ((k, v) # b)"
  proof (rule ext)
    fix x
    show "((map_of a)(k \<mapsto> v) ++ map_of b) x = (map_of a ++ map_of ((k, v) # b)) x"
      using k by (cases "x = k") (simp_all add: map_add_def split: option.splits)
  qed
  have "map_of (fold (\<lambda>(k, v). set_prop k v) (kv # b) a)
          = map_of (fold (\<lambda>(k, v). set_prop k v) b (set_prop k v a))"
    by (simp add: kv)
  also have "\<dots> = map_of (set_prop k v a) ++ map_of b"
    by (rule Cons.IH [OF d])
  also have "\<dots> = (map_of a)(k \<mapsto> v) ++ map_of b"
    by (simp add: set_prop_def update_conv')
  also have "\<dots> = map_of a ++ map_of (kv # b)"
    unfolding kv by (rule step)
  finally show ?case .
qed

lemma distinct_userPermission_props: "distinct (map fst (userPermission_props g))"
  by (cases "user_id g"; cases "user_email g") (simp_all add: userPermission_props_def)

lemma lookup_merge_grant:
  "lookup (own_props (merge_grant u g)) k =
     (case map_of (userPermission_props g) k of Some v \<Rightarrow> v | None \<Rightarrow> lookup (own_props u) k)"
  by (simp add: merge_grant_def lookup_def map_of_spread [OF distinct_userPermission_props] map_add_def
        split: option.splits)

lemma upsert_single_match:
  assumes "first_match existing g = Some j"
  shows "upsert_result existing [g] = existing[j := merge_grant (existing ! j) g]"
proof -
  have j: "j < length existing"
    using assms unfolding first_match_def by (rule first_index_less)
  have "map (\<lambda>i. fold (\<lambda>g u. merge_grant u g) (filter (\<lambda>h. first_match existing h = Some i) [g]) (existing ! i))
          [0..<length existing] = existing[j := merge_grant (existing ! j) g]"
    using assms by (intro nth_equalityI) (auto simp add: nth_list_update)
  with assms show ?thesis by (simp add: upsert_result_def)
qed

lemma upsert_single_new:
  assumes "first_match existing g = None"
  shows "upsert_result existing [g] = existing @ [userPermission_json g]"
  using assms by (simp add: upsert_result_def map_nth)

lemma merged_users_upsert:
  assumes "\<forall>u \<in> set existing. u \<noteq> JNull \<and> u \<noteq> JUndefined"
  shows "merged_users (JArr existing) incoming = Inr (upsert_result existing incoming)"
  using merge_users_invariant [OF assms order_refl, of incoming]
  by (simp add: merged_users_def upsert_result_def)


text \<open>
  Claim C1, as amended. For \<open>updatePermissions\<close> with \<open>replaceUsers = false\<close>, on a fetched
  \<open>users\<close> list without null entries: each incoming grant is matched to the first entry of
  the pre-merge list whose \<open>id\<close> is the grant's (non-empty) \<open>id\<close> or whose \<open>email\<close> is the
  grant's (non-empty) \<open>email\<close>; the two keys are tested entry by entry in one scan, the
  e-mail only where the id did not match that entry. On a match the grant's fields are
  laid over the entry at its position (a field the grant has takes the grant's value,
  every other field stays); with no match the grant is appended, so the list grows by one
  per unmatched grant; a document with no \<open>users\<close> list gets the incoming grants as its
  list. In particular, for a grant carrying both \<open>id\<close> and \<open>email\<close>, the
  entry updated is the first one matching by either key: when an entry matching by
  \<open>email\<close> comes before the entry with the grant's \<open>id\<close>, the earlier one is updated and
  the id-matching entry is left as it was.
\<close>

theorem permission_upsert_first_match:
  assumes "\<forall>u \<in> set existing. u \<noteq> JNull \<and> u \<noteq> JUndefined"
  shows "(lookup (own_props currentPermissions) ''users'' = JArr existing \<longrightarrow>
            (\<exists>fs. updatedPermissions currentPermissions scp (Some incoming) False = Inr (JObj fs) \<and>
                  lookup fs ''users'' = JArr (upsert_result existing incoming))) \<and>
         (\<not> truthy (lookup (own_props currentPermissions) ''users'') \<longrightarrow>
            (\<exists>fs. updatedPermissions currentPermissions scp (Some incoming) False = Inr (JObj fs) \<and>
                  lookup fs ''users'' = JArr (map userPermission_json incoming))) \<and>
         findIndex (user_matches g) existing = Inr (first_match existing g) \<and>
         (first_match existing g = Some j \<longleftrightarrow>
            j < length existing \<and> grant_matches g (existing ! j) \<and> (\<forall>i < j. \<not> grant_matches g (existing ! i))) \<and>
         (first_match existing g = None \<longleftrightarrow> (\<forall>u \<in> set existing. \<not> grant_matches g u)) \<and>
         (first_match existing g = Some j \<longrightarrow>
            upsert_result existing [g] = existing[j := merge_grant (existing ! j) g]) \<and>
         (first_match existing g = None \<longrightarrow>
            upsert_result existing [g] = existing @ [userPermission_json g]) \<and>
         (\<forall>k. lookup (own_props (merge_grant u g)) k =
               (case map_of (userPermission_props g) k of Some v \<Rightarrow> v | None \<Rightarrow> lookup (own_props u) k)) \<and>
         length (upsert_result existing incoming) =
           length existing + length (filter (\<lambda>g. first_match existing g = None) incoming)"
proof -
  define with_scope where "with_scope = assign_if_defined ''scope'' (map_option (\<lambda>s. JStr (scope_text s)) scp)
                 (own_props currentPermissions)"
  have users: "lookup with_scope ''users'' = lookup (own_props currentPermissions) ''users''"
    unfolding with_scope_def by (cases scp) (simp_all add: lookup_assign_if_defined)
  have doc: "lookup (own_props currentPermissions) ''users'' = JArr existing \<longrightarrow>
            (\<exists>fs. updatedPermissions currentPermissions scp (Some incoming) False = Inr (JObj fs) \<and>
                  lookup fs ''users'' = JArr (upsert_result existing incoming))"
  proof
    assume "lookup (own_props currentPermissions) ''users'' = JArr existing"
    with users have u: "lookup with_scope ''users'' = JArr existing" by simp
    have "updatedPermissions currentPermissions scp (Some incoming) False =
        Inr (JObj (set_prop ''users'' (JArr (upsert_result existing incoming)) with_scope))"
      by (simp add: updatedPermissions_def with_scope_def [symmetric] u merged_users_upsert [OF assms(1)])
    then show "\<exists>fs. updatedPermissions currentPermissions scp (Some incoming) False = Inr (JObj fs) \<and>
                  lookup fs ''users'' = JArr (upsert_result existing incoming)"
      by (simp add: lookup_set_prop)
  qed
  have nodoc: "\<not> truthy (lookup (own_props currentPermissions) ''users'') \<longrightarrow>
            (\<exists>fs. updatedPermissions currentPermissions scp (Some incoming) False = Inr (JObj fs) \<and>
                  lookup fs ''users'' = JArr (map userPermission_json incoming))"
  proof
    assume "\<not> truthy (lookup (own_props currentPermissions) ''users'')"
    with users have u: "\<not> truthy (lookup with_scope ''users'')" by simp
    have "merge_users [] [] incoming = Inr (map userPermission_json incoming)"
      using merge_users_invariant [of "[]" "[]" incoming] by (simp add: first_match_def)
    then have "updatedPermissions currentPermissions scp (Some incoming) False =
        Inr (JObj (set_prop ''users'' (JArr (map userPermission_json incoming)) with_scope))"
      using u by (simp add: updatedPermissions_def with_scope_def [symmetric] merged_users_def)
    then show "\<exists>fs. updatedPermissions currentPermissions scp (Some incoming) False = Inr (JObj fs) \<and>
                  lookup fs ''users'' = JArr (map userPermission_json incoming)"
      by (simp add: lookup_set_prop)
  qed
  have fi: "findIndex (user_matches g) existing = Inr (first_match existing g)"
    unfolding first_match_def
    by (rule findIndex_pure) (simp add: assms(1) user_matches_pure)
  have some: "first_match existing g = Some j \<longleftrightarrow>
            j < length existing \<and> grant_matches g (existing ! j) \<and> (\<forall>i < j. \<not> grant_matches g (existing ! i))"
    unfolding first_match_def by (rule first_index_Some_iff)
  have none: "first_match existing g = None \<longleftrightarrow> (\<forall>u \<in> set existing. \<not> grant_matches g u)"
    unfolding first_match_def by (rule first_index_None_iff)
  have upd: "first_match existing g = Some j \<longrightarrow>
            upsert_result existing [g] = existing[j := merge_grant (existing ! j) g]"
    by (simp add: upsert_single_match)
  have app: "first_match existing g = None \<longrightarrow>
            upsert_result existing [g] = existing @ [userPermission_json g]"
    by (simp add: upsert_single_new)
  have shallow: "\<forall>k. lookup (own_props (merge_grant u g)) k =
               (case map_of (userPermission_props g) k of Some v \<Rightarrow> v | None \<Rightarrow> lookup (own_props u) k)"
    by (simp add: lookup_merge_grant)
  have len: "length (upsert_result existing incoming) =
           length existing + length (filter (\<lambda>g. first_match existing g = None) incoming)"
    by (simp add: upsert_result_def)
  from doc nodoc fi some none upd app shallow len show ?thesis by (intro conjI)
qed

theorem permission_upsert_first_match_witness:
  "email_entry \<noteq> JNull \<and> email_entry \<noteq> JUndefined \<and> id_entry \<noteq> JNull \<and> id_entry \<noteq> JUndefined \<and>
   lookup (own_props by_email_then_id) ''users'' = JArr [email_entry, id_entry] \<and>
   grant_matches both_keys id_entry \<and>
   first_match [email_entry, id_entry] both_keys = Some 0 \<and>
   upsert_result [email_entry, id_entry] [both_keys] = [merge_grant email_entry both_keys, id_entry] \<and>
   merge_grant email_entry both_keys =
     JObj [(''email'', JStr ''a@x.org''),
           (''accessLevels'', JArr [JObj [(''name'', JStr ''editor''), (''version'', JStr ''all'')]]),
           (''id'', JStr ''u1'')]"
proof -
  have h1: "\<forall>u \<in> set [email_entry, id_entry]. u \<noteq> JNull \<and> u \<noteq> JUndefined"
    by (simp add: email_entry_def id_entry_def)
  have h2: "lookup (own_props by_email_then_id) ''users'' = JArr [email_entry, id_entry]"
    by (simp add: by_email_then_id_def lookup_def)
  have m: "grant_matches both_keys email_entry" "grant_matches both_keys id_entry"
    by (simp_all add: grant_matches_def key_matches_def both_keys_def email_entry_def id_entry_def lookup_def)
  have mg: "merge_grant email_entry both_keys =
     JObj [(''email'', JStr ''a@x.org''),
           (''accessLevels'', JArr [JObj [(''name'', JStr ''editor''), (''version'', JStr ''all'')]]),
           (''id'', JStr ''u1'')]"
    by (simp add: merge_grant_def email_entry_def both_keys_def spread_def set_prop_def userPermission_props_def)
  from permission_upsert_first_match [OF h1, of by_email_then_id None "[both_keys]" both_keys 0 email_entry] h2 m
  have "first_match [email_entry, id_entry] both_keys = Some 0"
    and "upsert_result [email_entry, id_entry] [both_keys] = [merge_grant email_entry both_keys, id_entry]"
    by simp_all
  with h1 h2 m mg show ?thesis by simp
qed

text \<open>The claim as stated has the id-matching entry updated even when another entry
  matches by e-mail before it. On \<open>by_email_then_id\<close> the first entry takes the grant's
  fields and the entry with \<open>id = u1\<close> keeps its \<open>viewer\<close> level.\<close>

theorem permission_upsert_id_priority_counterexample:
  "updatedPermissions by_email_then_id None (Some [both_keys]) False =
     Inr (JObj [(''scope'', JStr ''private''),
                (''users'', JArr [JObj [(''email'', JStr ''a@x.org''),
                                        (''accessLevels'', JArr [JObj [(''name'', JStr ''editor''), (''version'', JStr ''all'')]]),
                                        (''id'', JStr ''u1'')],
                                  id_entry])])"
  by (simp add: by_email_then_id_def email_entry_def id_entry_def both_keys_def
        updatedPermissions_def merged_users_def user_matches_def same_key_def get_prop_def
        assign_if_defined_def lookup_def spread_def set_prop_def userPermission_props_def userPermission_json_def)

section \<open>The schedule resolver\<close>

lemma resource_or_own_not_null:
  assumes "asset \<noteq> JNull" "asset \<noteq> JUndefined"
  shows "resource_or_own asset k =
           Inr (js_or (opt_prop (lookup (own_props asset) ''resource'') k) (lookup (own_props asset) k))"
  using assms by (simp add: resource_or_own_def get_prop_def js_or_def)

lemma getSchedule_allowed:
  "validateDomain A domain = Inr () \<Longrightarrow>
     getSchedule A remote domain fxf log = socrataGet remote (schedule_url domain fxf) log"
  by (simp add: getSchedule_def)

lemma socrataGet_pair:
  "socrataGet remote url log = (log @ [GET url], snd (socrataGet remote url log))"
  by (simp add: socrataGet_def socrata_request_def)

lemma schedule_step:
  assumes "validateDomain A domain = Inr ()" "asset \<noteq> JNull" "asset \<noteq> JUndefined"
  shows "schedule_loop pf A remote domain (asset # assets) acc log =
         schedule_loop pf A remote domain assets
           (acc @ [summary_of pf asset (snd (socrataGet remote (schedule_url domain (fxf_of asset)) log))])
           (log @ [GET (schedule_url domain (fxf_of asset))])"
proof -
  have nm: "resource_or_own asset ''name'' = Inr (name_of asset)"
    and fx: "resource_or_own asset ''id'' = Inr (fxf_of asset)"
    using assms(2,3) by (simp_all add: resource_or_own_not_null name_of_def fxf_of_def)
  obtain outcome where outcome: "snd (socrataGet remote (schedule_url domain (fxf_of asset)) log) = outcome"
    by simp
  then have get: "socrataGet remote (schedule_url domain (fxf_of asset)) log
      = (log @ [GET (schedule_url domain (fxf_of asset))], outcome)"
    using socrataGet_pair [of remote "schedule_url domain (fxf_of asset)" log] by simp
  show ?thesis
  proof (cases outcome)
    case (Inl e)
    then show ?thesis
      using assms(1)
      by (simp add: try_schedule_def failed_schedule_def nm fx getSchedule_allowed get outcome summary_of_def)
  next
    case (Inr scheduleData)
    show ?thesis
    proof (cases "formatScheduleResponse pf scheduleData (Some (name_of asset, fxf_of asset))")
      case (Inl e)
      with Inr show ?thesis
        using assms(1)
        by (simp add: try_schedule_def failed_schedule_def nm fx getSchedule_allowed get outcome summary_of_def)
    next
      case entry: (Inr entry)
      with Inr show ?thesis
        using assms(1)
        by (simp add: try_schedule_def failed_schedule_def nm fx getSchedule_allowed get outcome summary_of_def)
    qed
  qed
qed

lemma schedule_loop_summaries:
  assumes "validateDomain A domain = Inr ()"
  shows "\<forall>a \<in> set assets. a \<noteq> JNull \<and> a \<noteq> JUndefined \<Longrightarrow>
     schedule_loop pf A remote domain assets acc log =
       (log @ fetches domain assets, Inr (acc @ summaries pf remote domain assets log))"
proof (induction assets arbitrary: acc log)
  case Nil
  then show ?case by (simp add: fetches_def)
next
  case (Cons a assets)
  then have a: "a \<noteq> JNull" "a \<noteq> JUndefined" and rest: "\<forall>a \<in> set assets. a \<noteq> JNull \<and> a \<noteq> JUndefined"
    by simp_all
  show ?case
    unfolding schedule_step [OF assms a] Cons.IH [OF rest]
    by (simp add: fetches_def)
qed

lemma summaries_length: "length (summaries pf remote domain assets log) = length assets"
  by (induction assets arbitrary: log) simp_all

lemma summaries_nth:
  "i < length assets \<Longrightarrow>
     summaries pf remote domain assets log ! i =
       summary_of pf (assets ! i)
         (snd (socrataGet remote (schedule_url domain (fxf_of (assets ! i))) (log @ fetches domain (take i assets))))"
proof (induction assets arbitrary: i log)
  case Nil
  then show ?case by simp
next
  case (Cons a assets)
  show ?case
  proof (cases i)
    case 0
    then show ?thesis by (simp add: fetches_def)
  next
    case (Suc m)
    with Cons.prems have "m < length assets" by simp
    from Cons.IH [OF this, of "log @ [GET (schedule_url domain (fxf_of a))]"] Suc
    show ?thesis by (simp add: fetches_def)
  qed
qed

lemma filter_throwing_kept:
  "filter_throwing f xs = Inr ys \<Longrightarrow> \<forall>y \<in> set ys. f y = Inr True"
proof (induction xs arbitrary: ys)
  case Nil
  then show ?case by simp
next
  case (Cons x xs)
  then show ?case
    by (auto split: sum.splits if_splits)
qed

lemma is_dataset_not_null: "is_dataset a = Inr b \<Longrightarrow> a \<noteq> JNull \<and> a \<noteq> JUndefined"
  by (auto simp add: is_dataset_def get_prop_def)

lemma formatScheduleResponse_shape:
  "formatScheduleResponse pf scheduleData info = Inr v \<Longrightarrow>
     \<exists>fs. v = JObj fs \<and>
          (map fst fs = [''dataset'', ''schedule'', ''summary''] \<or> map fst fs = [''dataset'', ''schedule'', ''error''])"
  by (auto simp add: formatScheduleResponse_def Let_def split: if_splits sum.splits)

lemma summary_of_object: "\<exists>fs. summary_of pf asset outcome = JObj fs"
proof (cases "case outcome of Inl e \<Rightarrow> Inl e
            | Inr scheduleData \<Rightarrow> formatScheduleResponse pf scheduleData (Some (name_of asset, fxf_of asset))")
  case (Inl e)
  then show ?thesis by (simp add: summary_of_def)
next
  case (Inr entry)
  then obtain sd where "formatScheduleResponse pf sd (Some (name_of asset, fxf_of asset)) = Inr entry"
    by (cases outcome) auto
  from formatScheduleResponse_shape [OF this] Inr show ?thesis
    by (auto simp add: summary_of_def)
qed

lemma formatResponse_total:
  assumes "v \<noteq> JUndefined"
  shows "\<exists>out. formatResponse v opts = Inr out"
proof -
  have t: "\<And>d. d \<noteq> JUndefined \<Longrightarrow> \<exists>out. truncateResponse d CHARACTER_LIMIT = Inr out"
    by (simp add: truncateResponse_def JSON_stringify_def Let_def)
  show ?thesis
    using assms by (cases v) (auto simp add: formatResponse_def Let_def intro!: t)
qed


lemma schedule_search_result:
  assumes "validateDomain A domain = Inr ()"
    and "searchCatalog pf A remote domain assetName log = (log1, Inr (JArr assets))"
    and "filter_throwing is_dataset assets = Inr datasetAssets"
    and "datasetAssets \<noteq> []"
  shows "\<exists>formatted.
      schedule_search pf A remote domain assetName fmt det log =
        (log1 @ fetches domain datasetAssets,
         Inr (content_text fmt (results_heading domain assetName (length datasetAssets)) formatted)) \<and>
      formatResponse
        (if length datasetAssets = 1 then summaries pf remote domain datasetAssets log1 ! 0
         else JArr (summaries pf remote domain datasetAssets log1))
        \<lparr>format = Some fmt, detail = Some det\<rparr> = Inr formatted"
proof -
  define items where "items = summaries pf remote domain datasetAssets log1"
  define result where "result = (if length items = 1 then items ! 0 else JArr items)"
  have nonnull: "\<forall>a \<in> set datasetAssets. a \<noteq> JNull \<and> a \<noteq> JUndefined"
    using filter_throwing_kept [OF assms(3)] is_dataset_not_null by blast
  have loop: "schedule_loop pf A remote domain datasetAssets [] log1 = (log1 @ fetches domain datasetAssets, Inr items)"
    using schedule_loop_summaries [OF assms(1) nonnull, of pf remote "[]" log1] by (simp add: items_def)
  have len: "length items = length datasetAssets"
    by (simp add: items_def summaries_length)
  have assets: "assets \<noteq> []"
    using assms(3,4) by auto
  have first: "\<exists>fs. items ! 0 = JObj fs"
  proof -
    have "0 < length datasetAssets" using assms(4) by simp
    then have "items ! 0 = summary_of pf (datasetAssets ! 0)
         (snd (socrataGet remote (schedule_url domain (fxf_of (datasetAssets ! 0))) (log1 @ fetches domain (take 0 datasetAssets))))"
      unfolding items_def by (rule summaries_nth)
    then show ?thesis
      using summary_of_object by simp
  qed
  have "result \<noteq> JUndefined"
    using first by (auto simp add: result_def)
  then obtain formatted where f: "formatResponse result \<lparr>format = Some fmt, detail = Some det\<rparr> = Inr formatted"
    using formatResponse_total by blast
  have lz: "\<not> length_is_zero (JArr assets)"
    using assets by simp
  have "schedule_search pf A remote domain assetName fmt det log =
        (log1 @ fetches domain datasetAssets,
         Inr (content_text fmt (results_heading domain assetName (length datasetAssets)) formatted))"
    using assms(4) lz f [unfolded result_def] len
    by (simp add: schedule_search_def assms(2) assms(3) loop)
  moreover have "formatResponse
        (if length datasetAssets = 1 then summaries pf remote domain datasetAssets log1 ! 0
         else JArr (summaries pf remote domain datasetAssets log1))
        \<lparr>format = Some fmt, detail = Some det\<rparr> = Inr formatted"
    using f unfolding result_def len by (simp only: items_def)
  ultimately show ?thesis
    by (intro exI [of _ formatted] conjI)
qed

lemma handler_search_mode:
  assumes "\<not> given fxf" "given assetName" "validateDomain A domain = Inr ()"
  shows "publishingScheduleGet_handler pf A remote domain fxf assetName fmt det log =
     (case schedule_search pf A remote domain (arg_text assetName) fmt det log of
        (log1, Inl e) \<Rightarrow> (log1, Inl (schedule_failure domain e))
      | (log1, Inr txt) \<Rightarrow> (log1, Inr txt))"
  using assms by (simp add: publishingScheduleGet_handler_def)

lemma handler_direct_mode:
  assumes "given fxf" "validateDomain A domain = Inr ()"
  shows "publishingScheduleGet_handler pf A remote domain fxf assetName fmt det log =
     (log @ [GET (schedule_url domain (JStr (arg_text fxf)))],
      case snd (socrataGet remote (schedule_url domain (JStr (arg_text fxf))) log) of
        Inl e \<Rightarrow> Inl (schedule_failure domain e)
      | Inr scheduleData \<Rightarrow>
          (case formatScheduleResponse pf scheduleData None of
             Inl e \<Rightarrow> Inl (schedule_failure domain e)
           | Inr formatted \<Rightarrow> Inr (content_text fmt (schedule_heading domain (arg_text fxf)) formatted)))"
proof -
  obtain outcome where o: "snd (socrataGet remote (schedule_url domain (JStr (arg_text fxf))) log) = outcome"
    by simp
  then have get: "socrataGet remote (schedule_url domain (JStr (arg_text fxf))) log
      = (log @ [GET (schedule_url domain (JStr (arg_text fxf)))], outcome)"
    using socrataGet_pair [of remote "schedule_url domain (JStr (arg_text fxf))" log] by simp
  show ?thesis
    using assms
    by (simp add: publishingScheduleGet_handler_def getSchedule_allowed get o split: sum.splits)
qed

lemma handler_domain_refused:
  assumes "given fxf \<or> given assetName" "validateDomain A domain = Inl e"
  shows "publishingScheduleGet_handler pf A remote domain fxf assetName fmt det log =
           (log, Inl (schedule_failure domain e))"
  using assms by (auto simp add: publishingScheduleGet_handler_def)

lemma demo_searchCatalog:
  "searchCatalog demo_platform [] demo_catalog ''data.x.org'' ''crimes'' [] =
     ([GET ''https://data.x.org/api/catalog/v1?domains=data.x.org&q=crimes''],
      Inr (JArr [crimes, crimes_map, crimes_2001]))"
  by (simp add: searchCatalog_def validateDomain_def socrataGet_def socrata_request_def catalog_url_def
        demo_platform_def demo_catalog_def ok_response_def response_ok_def get_prop_def lookup_def js_or_def)

lemma demo_datasets: "filter_throwing is_dataset [crimes, crimes_map, crimes_2001] = Inr [crimes, crimes_2001]"
  by (simp add: is_dataset_def get_prop_def opt_prop_def lookup_def crimes_def crimes_map_def crimes_2001_def)

lemma demo_fetches:
  "fetches ''data.x.org'' [crimes, crimes_2001] =
     [GET ''https://data.x.org/api/publishing/v1/revision/datasets/aaaa-1111'',
      GET ''https://data.x.org/api/publishing/v1/revision/datasets/bbbb-2222'']"
  by (simp add: fetches_def schedule_url_def fxf_of_def opt_prop_def lookup_def js_or_def crimes_def crimes_2001_def)

lemma demo_daily_summary:
  "formatScheduleResponse demo_platform daily_schedule info =
     Inr (JObj [(''dataset'', (case info of
                                Some (n, f) \<Rightarrow> dataset_info n f
                              | None \<Rightarrow> dataset_info (JStr ''Unknown'') (JStr ''Unknown''))),
                (''schedule'', JObj [(''cadence'', JStr ''Daily''), (''status'', JStr ''Unknown''),
                                     (''enabled'', JBool True), (''lastRun'', JNull), (''nextRun'', JNull),
                                     (''rowCount'', JNum ''0''), (''owner'', JStr ''Unknown''),
                                     (''frequency'', JNull), (''timezone'', JNull)]),
                (''summary'', JStr ''Updates daily, last updated: Unknown, next update: Not scheduled'')])"
  by (cases info)
     (auto simp add: formatScheduleResponse_def generateScheduleSummary_def schedule_fields_def daily_schedule_def
        lookup_def js_or_def demo_platform_def lower_char_def)







text \<open>
  Claim C6, as amended. The handler fails with the invalid-arguments error, before any
  request, when neither \<open>fxf\<close> nor \<open>assetName\<close> is given as a non-empty string. When \<open>fxf\<close>
  is a non-empty string, whatever \<open>assetName\<close> is, the only request it can make is the
  schedule fetch for that identifier (the catalog is never queried), and whenever it
  succeeds its answer is the text of one schedule summary, an object and not a list; with
  an allowed domain, a successful fetch and a payload the summary can be built from, it
  does succeed. An empty string counts as not given: an empty \<open>fxf\<close> with a non-empty
  \<open>assetName\<close> goes to the catalog search.
\<close>

theorem schedule_direct_mode:
  "(\<not> given fxf \<and> \<not> given assetName \<longrightarrow>
      publishingScheduleGet_handler pf A remote domain fxf assetName fmt det log =
        (log, Inl (schedule_failure domain InvalidArguments))) \<and>
   (given fxf \<longrightarrow>
      (fst (publishingScheduleGet_handler pf A remote domain fxf assetName fmt det log) = log \<or>
       fst (publishingScheduleGet_handler pf A remote domain fxf assetName fmt det log) =
         log @ [GET (schedule_url domain (JStr (arg_text fxf)))]) \<and>
      (\<forall>answer. snd (publishingScheduleGet_handler pf A remote domain fxf assetName fmt det log) = Inr answer \<longrightarrow>
         (\<exists>fs. answer = content_text fmt (schedule_heading domain (arg_text fxf)) (JObj fs) \<and>
               (map fst fs = [''dataset'', ''schedule'', ''summary''] \<or>
                map fst fs = [''dataset'', ''schedule'', ''error''])))) \<and>
   (given fxf \<and> validateDomain A domain = Inr () \<and>
    remote log (GET (schedule_url domain (JStr (arg_text fxf)))) = Inr r \<and> response_ok r \<and>
    body_json r = Inr scheduleData \<and> formatScheduleResponse pf scheduleData None = Inr summary \<longrightarrow>
      publishingScheduleGet_handler pf A remote domain fxf assetName fmt det log =
        (log @ [GET (schedule_url domain (JStr (arg_text fxf)))],
         Inr (content_text fmt (schedule_heading domain (arg_text fxf)) summary)))"
proof (intro conjI impI)
  assume "\<not> given fxf \<and> \<not> given assetName"
  then show "publishingScheduleGet_handler pf A remote domain fxf assetName fmt det log =
        (log, Inl (schedule_failure domain InvalidArguments))"
    by (simp add: publishingScheduleGet_handler_def)
next
  assume g: "given fxf"
  show "fst (publishingScheduleGet_handler pf A remote domain fxf assetName fmt det log) = log \<or>
       fst (publishingScheduleGet_handler pf A remote domain fxf assetName fmt det log) =
         log @ [GET (schedule_url domain (JStr (arg_text fxf)))]"
  proof (cases "validateDomain A domain")
    case (Inl e)
    with g show ?thesis by (simp add: handler_domain_refused)
  next
    case (Inr u)
    with g show ?thesis by (simp add: handler_direct_mode)
  qed
next
  assume g: "given fxf"
  show "\<forall>answer. snd (publishingScheduleGet_handler pf A remote domain fxf assetName fmt det log) = Inr answer \<longrightarrow>
         (\<exists>fs. answer = content_text fmt (schedule_heading domain (arg_text fxf)) (JObj fs) \<and>
               (map fst fs = [''dataset'', ''schedule'', ''summary''] \<or>
                map fst fs = [''dataset'', ''schedule'', ''error'']))"
  proof (intro allI impI)
    fix answer
    assume ok: "snd (publishingScheduleGet_handler pf A remote domain fxf assetName fmt det log) = Inr answer"
    show "\<exists>fs. answer = content_text fmt (schedule_heading domain (arg_text fxf)) (JObj fs) \<and>
               (map fst fs = [''dataset'', ''schedule'', ''summary''] \<or>
                map fst fs = [''dataset'', ''schedule'', ''error''])"
    proof (cases "validateDomain A domain")
      case (Inl e)
      with g ok show ?thesis by (simp add: handler_domain_refused)
    next
      case (Inr u)
      then have v: "validateDomain A domain = Inr ()" by simp
      define outcome where "outcome = snd (socrataGet remote (schedule_url domain (JStr (arg_text fxf))) log)"
      have "snd (publishingScheduleGet_handler pf A remote domain fxf assetName fmt det log) =
          (case outcome of
             Inl e \<Rightarrow> Inl (schedule_failure domain e)
           | Inr scheduleData \<Rightarrow>
               (case formatScheduleResponse pf scheduleData None of
                  Inl e \<Rightarrow> Inl (schedule_failure domain e)
                | Inr formatted \<Rightarrow> Inr (content_text fmt (schedule_heading domain (arg_text fxf)) formatted)))"
        unfolding handler_direct_mode [OF g v] outcome_def by simp
      with ok have c: "(case outcome of
             Inl e \<Rightarrow> Inl (schedule_failure domain e)
           | Inr scheduleData \<Rightarrow>
               (case formatScheduleResponse pf scheduleData None of
                  Inl e \<Rightarrow> Inl (schedule_failure domain e)
                | Inr formatted \<Rightarrow> Inr (content_text fmt (schedule_heading domain (arg_text fxf)) formatted)))
           = Inr answer" by simp
      show ?thesis
      proof (cases outcome)
        case (Inl e)
        with c show ?thesis by simp
      next
        case sd: (Inr scheduleData)
        show ?thesis
        proof (cases "formatScheduleResponse pf scheduleData None")
          case (Inl e)
          with c sd show ?thesis by simp
        next
          case f: (Inr formatted)
          with c sd have answer: "answer = content_text fmt (schedule_heading domain (arg_text fxf)) formatted"
            by simp
          from formatScheduleResponse_shape [OF f] obtain fs where
            "formatted = JObj fs"
            "map fst fs = [''dataset'', ''schedule'', ''summary''] \<or> map fst fs = [''dataset'', ''schedule'', ''error'']"
            by (elim exE conjE)
          with answer show ?thesis by (intro exI [of _ fs]) simp
        qed
      qed
    qed
  qed
next
  assume h: "given fxf \<and> validateDomain A domain = Inr () \<and>
    remote log (GET (schedule_url domain (JStr (arg_text fxf)))) = Inr r \<and> response_ok r \<and>
    body_json r = Inr scheduleData \<and> formatScheduleResponse pf scheduleData None = Inr summary"
  then have g: "given fxf" and v: "validateDomain A domain = Inr ()"
    and r: "remote log (GET (schedule_url domain (JStr (arg_text fxf)))) = Inr r" "response_ok r"
    and rest: "body_json r = Inr scheduleData" "formatScheduleResponse pf scheduleData None = Inr summary"
    by simp_all
  have "snd (socrataGet remote (schedule_url domain (JStr (arg_text fxf))) log) = Inr scheduleData"
    using socrataGet_ok [where remote = remote and log = log, OF r] rest(1) by simp
  then show "publishingScheduleGet_handler pf A remote domain fxf assetName fmt det log =
        (log @ [GET (schedule_url domain (JStr (arg_text fxf)))],
         Inr (content_text fmt (schedule_heading domain (arg_text fxf)) summary))"
    unfolding handler_direct_mode [OF g v] using rest(2) by simp
qed

theorem schedule_direct_mode_witness:
  "publishingScheduleGet_handler demo_platform [] demo_catalog ''data.x.org'' None (Some []) Json Detailed [] =
     ([], Inl (schedule_failure ''data.x.org'' InvalidArguments)) \<and>
   publishingScheduleGet_handler demo_platform [] demo_catalog ''data.x.org'' (Some ''aaaa-1111'') (Some ''crimes'')
       Json Detailed [] =
     ([GET ''https://data.x.org/api/publishing/v1/revision/datasets/aaaa-1111''],
      Inr (content_text Json (schedule_heading ''data.x.org'' ''aaaa-1111'')
             (JObj [(''dataset'', dataset_info (JStr ''Unknown'') (JStr ''Unknown'')),
                    (''schedule'', JObj [(''cadence'', JStr ''Daily''), (''status'', JStr ''Unknown''),
                                         (''enabled'', JBool True), (''lastRun'', JNull), (''nextRun'', JNull),
                                         (''rowCount'', JNum ''0''), (''owner'', JStr ''Unknown''),
                                         (''frequency'', JNull), (''timezone'', JNull)]),
                    (''summary'', JStr ''Updates daily, last updated: Unknown, next update: Not scheduled'')])))"
proof -
  have a: "\<not> given None \<and> \<not> given (Some [])"
    by (simp add: given_def)
  have b: "given (Some ''aaaa-1111'') \<and> validateDomain [] ''data.x.org'' = Inr () \<and>
      demo_catalog [] (GET (schedule_url ''data.x.org'' (JStr (arg_text (Some ''aaaa-1111''))))) = Inr (ok_response daily_schedule) \<and>
      response_ok (ok_response daily_schedule) \<and>
      body_json (ok_response daily_schedule) = Inr daily_schedule \<and>
      formatScheduleResponse demo_platform daily_schedule None =
        Inr (JObj [(''dataset'', dataset_info (JStr ''Unknown'') (JStr ''Unknown'')),
                    (''schedule'', JObj [(''cadence'', JStr ''Daily''), (''status'', JStr ''Unknown''),
                                         (''enabled'', JBool True), (''lastRun'', JNull), (''nextRun'', JNull),
                                         (''rowCount'', JNum ''0''), (''owner'', JStr ''Unknown''),
                                         (''frequency'', JNull), (''timezone'', JNull)]),
                    (''summary'', JStr ''Updates daily, last updated: Unknown, next update: Not scheduled'')])"
    by (simp add: given_def validateDomain_def demo_catalog_def schedule_url_def arg_text_def ok_response_def
          response_ok_def demo_daily_summary)
  from schedule_direct_mode [of None "Some []" demo_platform "[]" demo_catalog "''data.x.org''" Json Detailed "[]"
      "ok_response JNull" JNull JNull] a
  have first: "publishingScheduleGet_handler demo_platform [] demo_catalog ''data.x.org'' None (Some []) Json Detailed [] =
     ([], Inl (schedule_failure ''data.x.org'' InvalidArguments))"
    by simp
  from schedule_direct_mode [of "Some ''aaaa-1111''" "Some ''crimes''" demo_platform "[]" demo_catalog "''data.x.org''"
      Json Detailed "[]" "ok_response daily_schedule" daily_schedule] b
  have "publishingScheduleGet_handler demo_platform [] demo_catalog ''data.x.org'' (Some ''aaaa-1111'') (Some ''crimes'')
       Json Detailed [] =
     ([] @ [GET (schedule_url ''data.x.org'' (JStr (arg_text (Some ''aaaa-1111''))))],
      Inr (content_text Json (schedule_heading ''data.x.org'' (arg_text (Some ''aaaa-1111'')))
             (JObj [(''dataset'', dataset_info (JStr ''Unknown'') (JStr ''Unknown'')),
                    (''schedule'', JObj [(''cadence'', JStr ''Daily''), (''status'', JStr ''Unknown''),
                                         (''enabled'', JBool True), (''lastRun'', JNull), (''nextRun'', JNull),
                                         (''rowCount'', JNum ''0''), (''owner'', JStr ''Unknown''),
                                         (''frequency'', JNull), (''timezone'', JNull)]),
                    (''summary'', JStr ''Updates daily, last updated: Unknown, next update: Not scheduled'')])))"
    by blast
  then have second: "publishingScheduleGet_handler demo_platform [] demo_catalog ''data.x.org'' (Some ''aaaa-1111'') (Some ''crimes'')
       Json Detailed [] =
     ([GET ''https://data.x.org/api/publishing/v1/revision/datasets/aaaa-1111''],
      Inr (content_text Json (schedule_heading ''data.x.org'' ''aaaa-1111'')
             (JObj [(''dataset'', dataset_info (JStr ''Unknown'') (JStr ''Unknown'')),
                    (''schedule'', JObj [(''cadence'', JStr ''Daily''), (''status'', JStr ''Unknown''),
                                         (''enabled'', JBool True), (''lastRun'', JNull), (''nextRun'', JNull),
                                         (''rowCount'', JNum ''0''), (''owner'', JStr ''Unknown''),
                                         (''frequency'', JNull), (''timezone'', JNull)]),
                    (''summary'', JStr ''Updates daily, last updated: Unknown, next update: Not scheduled'')])))"
    by (simp add: schedule_url_def arg_text_def)
  from first second show ?thesis by (rule conjI)
qed

text \<open>The claim as stated covers every call in which \<open>fxf\<close> is supplied. In this call
  \<open>fxf\<close> is supplied as the empty string, next to a name: the catalog is queried and the
  schedules of both matching datasets are fetched.\<close>

theorem schedule_empty_fxf_counterexample:
  "given (Some ''crimes'') \<and>
   fst (publishingScheduleGet_handler demo_platform [] demo_catalog ''data.x.org'' (Some []) (Some ''crimes'')
          Json Detailed []) =
     [GET ''https://data.x.org/api/catalog/v1?domains=data.x.org&q=crimes'',
      GET ''https://data.x.org/api/publishing/v1/revision/datasets/aaaa-1111'',
      GET ''https://data.x.org/api/publishing/v1/revision/datasets/bbbb-2222'']"
proof -
  have v: "validateDomain [] ''data.x.org'' = Inr ()"
    by (simp add: validateDomain_def)
  have g: "\<not> given (Some [])" "given (Some ''crimes'')"
    by (simp_all add: given_def)
  from schedule_search_result [OF v demo_searchCatalog demo_datasets, of Json Detailed]
  obtain formatted where
    "schedule_search demo_platform [] demo_catalog ''data.x.org'' ''crimes'' Json Detailed [] =
       ([GET ''https://data.x.org/api/catalog/v1?domains=data.x.org&q=crimes''] @ fetches ''data.x.org'' [crimes, crimes_2001],
        Inr (content_text Json (results_heading ''data.x.org'' ''crimes'' (length [crimes, crimes_2001])) formatted))"
    by auto
  then show ?thesis
    using g by (simp add: handler_search_mode [OF g v] arg_text_def demo_fetches)
qed



end
